theory Spec2Isabelle
  imports Main
begin

section \<open>Python strings\<close>

text \<open>
  A Python \<open>str\<close> is modelled as a \<open>string\<close>: a list of characters with the code points
  0 to 255. On these code points the built-in methods the module calls are written out in
  full: \<open>str.isspace\<close> and \<open>str.strip\<close> know the twelve whitespace characters (code points 9
  to 13, 28 to 32, 133 and 160), \<open>str.lower\<close> adds 32 to the code points of the upper-case
  letters (65 to 90, and 192 to 222 without the multiplication sign 215) and leaves every
  other character as it is, and \<open>str(i)\<close> of an integer is its decimal numeral.
\<close>

definition backslash :: char where
  "backslash = CHR 0x5C"

definition newline :: char where
  "newline = CHR 0x0A"

definition quote :: char where
  "quote = CHR 0x27"

definition isspace_char :: "char \<Rightarrow> bool" where
  "isspace_char c =
     (let n = (of_char c :: nat)
      in (9 \<le> n \<and> n \<le> 13) \<or> (28 \<le> n \<and> n \<le> 32) \<or> n = 133 \<or> n = 160)"

definition isspace :: "string \<Rightarrow> bool" where
  \<comment> \<open>\<open>s.isspace()\<close>: at least one character, and all of them whitespace\<close>
  "isspace s = (s \<noteq> [] \<and> list_all isspace_char s)"

definition lower_char :: "char \<Rightarrow> char" where
  "lower_char c =
     (let n = (of_char c :: nat)
      in if (65 \<le> n \<and> n \<le> 90) \<or> (192 \<le> n \<and> n \<le> 222 \<and> n \<noteq> 215) then char_of (n + 32)
         else c)"

definition lower :: "string \<Rightarrow> string" where
  "lower s = map lower_char s"

definition strip :: "string \<Rightarrow> string" where
  \<comment> \<open>\<open>s.strip()\<close>: whitespace removed at both ends\<close>
  "strip s = rev (dropWhile isspace_char (rev (dropWhile isspace_char s)))"

definition replace :: "char \<Rightarrow> string \<Rightarrow> string \<Rightarrow> string" where
  \<comment> \<open>\<open>s.replace(old, new)\<close> for a one-character \<open>old\<close>, as at every call site\<close>
  "replace old new s = concat (map (\<lambda>c. if c = old then new else [c]) s)"

definition translate_delete :: "string \<Rightarrow> string \<Rightarrow> string" where
  \<comment> \<open>\<open>s.translate({ord(c): None for c in deleted})\<close>\<close>
  "translate_delete deleted s = filter (\<lambda>c. c \<notin> set deleted) s"

definition startswith :: "string \<Rightarrow> string \<Rightarrow> bool" where
  "startswith s p = (take (length p) s = p)"

fun contains :: "string \<Rightarrow> string \<Rightarrow> bool" where
  \<comment> \<open>\<open>sub in s\<close>\<close>
  "contains sub [] = (sub = [])"
| "contains sub (c # cs) = (startswith (c # cs) sub \<or> contains sub cs)"

fun join :: "string \<Rightarrow> string list \<Rightarrow> string" where
  \<comment> \<open>\<open>sep.join(items)\<close>\<close>
  "join sep [] = []"
| "join sep [x] = x"
| "join sep (x # y # ys) = x @ sep @ join sep (y # ys)"

definition digit_char :: "nat \<Rightarrow> char" where
  "digit_char d = char_of (48 + d)"

fun str_nat :: "nat \<Rightarrow> string" where
  "str_nat n =
     (if n < 10 then [digit_char n] else str_nat (n div 10) @ [digit_char (n mod 10)])"

declare str_nat.simps [simp del]

definition str_int :: "int \<Rightarrow> string" where
  \<comment> \<open>\<open>str(i)\<close>, also \<open>'%s' % i\<close> and \<open>'%d' % i\<close>\<close>
  "str_int i = (if i < 0 then CHR ''-'' # str_nat (nat (- i)) else str_nat (nat i))"


section \<open>Documents and dictionaries\<close>

text \<open>
  The structures handed to \<open>yaml.safe_dump\<close> are nested dictionaries, lists, strings,
  integers and booleans. A dictionary is an association list in insertion order;
  \<open>dict_set\<close> is \<open>d[k] = v\<close> and \<open>dict_update\<close> is \<open>d.update(other)\<close>.
\<close>

datatype yval =
    YStr string
  | YInt int
  | YBool bool
  | YList "yval list"
  | YDict "(string \<times> yval) list"

type_synonym dict = "(string \<times> yval) list"

fun dict_set :: "dict \<Rightarrow> string \<Rightarrow> yval \<Rightarrow> dict" where
  "dict_set [] k v = [(k, v)]"
| "dict_set ((k', v') # kvs) k v =
     (if k' = k then (k, v) # kvs else (k', v') # dict_set kvs k v)"

definition dict_get :: "dict \<Rightarrow> string \<Rightarrow> yval option" where
  "dict_get d k = map_of d k"

definition dict_update :: "dict \<Rightarrow> dict \<Rightarrow> dict" where
  "dict_update d other = foldl (\<lambda>acc kv. dict_set acc (fst kv) (snd kv)) d other"

fun lookup_path :: "yval \<Rightarrow> string list \<Rightarrow> yval option" where
  \<comment> \<open>\<open>v[k1][k2]...\<close>, \<open>None\<close> where a key is missing or the value is no dictionary\<close>
  "lookup_path v [] = Some v"
| "lookup_path (YDict d) (k # ks) =
     (case dict_get d k of None \<Rightarrow> None | Some v \<Rightarrow> lookup_path v ks)"
| "lookup_path _ (k # ks) = None"

fun all_keys :: "yval \<Rightarrow> string list" where
  \<comment> \<open>every dictionary key of the structure, at any depth\<close>
  "all_keys (YStr s) = []"
| "all_keys (YInt i) = []"
| "all_keys (YBool b) = []"
| "all_keys (YList vs) = concat (map all_keys vs)"
| "all_keys (YDict kvs) = concat (map (\<lambda>kv. fst kv # all_keys (snd kv)) kvs)"


section \<open>The data model\<close>

record token =
  consumer_key :: string
  token_key :: string
  token_secret :: string

record rack_controller =
  rack_url :: string

record package_repository =
  repo_id :: int
  repo_name :: string
  repo_url :: string
  repo_key :: string
  disabled_pockets :: "string list"
  components :: "string list"
  distributions :: "string list"

text \<open>
  Modelled from the spec: the enumerations \<open>NODE_STATUS\<close> and \<open>PRESEED_TYPE\<close> of
  \<open>maasserver.enum\<close>, which is not among the sources. The module names
  two statuses and two request kinds; every other member is carried by the last constructor.
\<close>

datatype node_status = DISK_ERASING | ENTERING_RESCUE_MODE | OTHER_STATUS nat

datatype preseed_type = COMMISSIONING | CURTIN | OTHER_TYPE string

record node =
  system_id :: string
  split_arch :: "string \<times> string"
  distro_series :: string
  status :: node_status
  boot_rack_controller :: rack_controller

text \<open>
  What the OS-specific provider \<open>get_preseed_data\<close> does: it returns the preseed, or raises.
\<close>

datatype exn =
    NotImplementedError
  | NoSuchOperatingSystem
  | NoConnectionsAvailable
  | OtherException string

datatype outcome = Returned string | Raised exn

type_synonym delegate_call = "preseed_type \<times> node \<times> token \<times> string"

text \<open>
  The collaborators of the module (the configuration store, the repository manager, the URL
  builder, the token store, the RPC call to the rack controller) and the library functions
  \<open>yaml.safe_dump\<close> and \<open>urllib.parse.urlencode\<close> live outside the sources. They are the
  fields of a read-only environment; every function below takes it as its first argument.
\<close>

record env =
  enable_http_proxy :: bool
  http_proxy :: "string option"
  get_maas_facing_server_host :: "rack_controller \<Rightarrow> string"
  get_default_archive :: "string \<Rightarrow> package_repository"
  get_additional_repositories :: "string \<Rightarrow> package_repository list"
  get_main_archive :: package_repository
  get_ports_archive :: package_repository
  absolute_reverse :: "string \<Rightarrow> string list \<Rightarrow> string \<Rightarrow> string"
  get_token_for_node :: "node \<Rightarrow> token"
  get_preseed_data :: "preseed_type \<Rightarrow> node \<Rightarrow> token \<Rightarrow> string \<Rightarrow> outcome"
  safe_dump :: "yval \<Rightarrow> string"
  urlencode :: "(string \<times> string) list \<Rightarrow> string"


section \<open>The module \<open>compose_preseed\<close>\<close>

definition RSYSLOG_PORT :: int where
  "RSYSLOG_PORT = 514"

definition get_apt_proxy_for_node :: "env \<Rightarrow> node \<Rightarrow> string option" where
  "get_apt_proxy_for_node e n =
     (if enable_http_proxy e then
        (case http_proxy e of
           Some p \<Rightarrow>
             if length p > 0 \<and> \<not> isspace p then Some p
             else Some (''http://'' @ get_maas_facing_server_host e (boot_rack_controller n)
                        @ '':8000/'')
         | None \<Rightarrow>
             Some (''http://'' @ get_maas_facing_server_host e (boot_rack_controller n)
                   @ '':8000/''))
      else None)"

definition special_characters :: string where
  "special_characters = quote # ''!@#$[]{}''"

definition make_clean_repo_name :: "package_repository \<Rightarrow> string" where
  "make_clean_repo_name repo =
     (let repo_name' =
        translate_delete special_characters (repo_name repo) @ ''_'' @ str_int (repo_id repo)
      in lower (replace (CHR '' '') ''_'' (strip repo_name')))"

definition sanitized_display_name :: "string \<Rightarrow> string" where
  \<comment> \<open>what \<open>make_clean_repo_name\<close> makes of the display name, as lemma
      \<open>make_clean_repo_name_shape\<close> shows: the special characters and the whitespace then left
      at the front are gone, every space is an underscore, letters are lower-case\<close>
  "sanitized_display_name s =
     lower (replace (CHR '' '') ''_''
       (dropWhile isspace_char (translate_delete special_characters s)))"

definition component_string :: "package_repository \<Rightarrow> string" where
  \<comment> \<open>lines 96 to 102: the variable \<open>components\<close>\<close>
  "component_string repo =
     strip (if components repo = [] then ''main''
            else foldl (\<lambda>acc component. acc @ component @ '' '') [] (components repo))"

definition source_url :: "node \<Rightarrow> package_repository \<Rightarrow> string" where
  \<comment> \<open>lines 91 to 110: the variable \<open>url\<close> of one round of the loop\<close>
  "source_url n repo =
     (if startswith (repo_url repo) ''ppa:'' then repo_url repo
      else if contains ''ppa.launchpad.net'' (repo_url repo) then
        ''deb '' @ repo_url repo @ '' '' @ distro_series n @ '' main''
      else if distributions repo = [] then
        ''deb '' @ repo_url repo @ '' '' @ distro_series n @ '' '' @ component_string repo
      else
        foldl (\<lambda>acc dist. acc @ ''deb '' @ repo_url repo @ '' '' @ dist @ '' ''
                              @ component_string repo @ [newline])
          [] (distributions repo))"

definition source_entry :: "node \<Rightarrow> package_repository \<Rightarrow> yval" where
  \<comment> \<open>lines 117 to 125\<close>
  "source_entry n repo =
     (if repo_key repo \<noteq> [] then
        YDict [(''key'', YStr (repo_key repo)), (''source'', YStr (source_url n repo))]
      else YDict [(''source'', YStr (source_url n repo))])"

definition add_repository :: "node \<Rightarrow> dict \<Rightarrow> package_repository \<Rightarrow> dict" where
  \<comment> \<open>one round of the loop of lines 90 to 125, on the dictionary \<open>archives['apt']\<close>\<close>
  "add_repository n apt repo =
     (let apt' = (if dict_get apt ''sources'' = None then dict_set apt ''sources'' (YDict [])
                  else apt)
      in case dict_get apt' ''sources'' of
           Some (YDict sources) \<Rightarrow>
             dict_set apt' ''sources''
               (YDict (dict_set sources (make_clean_repo_name repo) (source_entry n repo)))
         | _ \<Rightarrow> apt')"

definition sources_of :: "dict \<Rightarrow> dict" where
  \<comment> \<open>the dictionary \<open>archives['apt']['sources']\<close>, empty where the key is absent\<close>
  "sources_of apt = (case dict_get apt ''sources'' of Some (YDict sources) \<Rightarrow> sources | _ \<Rightarrow> [])"

definition default_apt :: "env \<Rightarrow> node \<Rightarrow> bool \<Rightarrow> dict" where
  \<comment> \<open>lines 61 to 87: \<open>archives['apt']\<close> before the loop\<close>
  "default_apt e n preserve_sources =
     (let archive = get_default_archive e (fst (split_arch n));
          apt0 = [(''preserve_sources_list'', YBool preserve_sources),
                  (''primary'', YList [YDict [(''arches'', YList [YStr ''default'']),
                                              (''uri'', YStr (repo_url archive))]]),
                  (''security'', YList [YDict [(''arches'', YList [YStr ''default'']),
                                               (''uri'', YStr (repo_url archive))]])];
          apt1 = (if disabled_pockets archive \<noteq> [] then
                    dict_set apt0 ''disable_suites'' (YList (map YStr (disabled_pockets archive)))
                  else apt0);
          apt2 = (case get_apt_proxy_for_node e n of
                    Some p \<Rightarrow> if p \<noteq> [] then dict_set apt1 ''proxy'' (YStr p) else apt1
                  | None \<Rightarrow> apt1)
      in if repo_key archive \<noteq> [] then
           dict_set apt2 ''sources''
             (YDict [(''archive_key'', YDict [(''key'', YStr (repo_key archive))])])
         else apt2)"

definition apt_config :: "env \<Rightarrow> node \<Rightarrow> bool \<Rightarrow> dict" where
  \<comment> \<open>lines 55 to 125: \<open>archives['apt']\<close> after the loop over the additional repositories\<close>
  "apt_config e n preserve_sources =
     foldl (add_repository n) (default_apt e n preserve_sources)
       (get_additional_repositories e (fst (split_arch n)))"

definition get_archive_config :: "env \<Rightarrow> node \<Rightarrow> bool \<Rightarrow> dict" where
  "get_archive_config e n preserve_sources = [(''apt'', YDict (apt_config e n preserve_sources))]"

definition get_rsyslog_host_port :: "env \<Rightarrow> node \<Rightarrow> string" where
  "get_rsyslog_host_port e n =
     get_maas_facing_server_host e (boot_rack_controller n) @ '':'' @ str_int RSYSLOG_PORT"

definition package_mirrors :: "env \<Rightarrow> yval" where
  \<comment> \<open>lines 141 to 168: the list stored under \<open>"package_mirrors"\<close>\<close>
  "package_mirrors e = YList [
     YDict [(''arches'', YList [YStr ''i386'', YStr ''amd64'']),
            (''search'', YDict [
               (''primary'', YList [YStr (repo_url (get_main_archive e))]),
               (''security'', YList [YStr (repo_url (get_main_archive e))])]),
            (''failsafe'', YDict [
               (''primary'', YStr ''http://archive.ubuntu.com/ubuntu''),
               (''security'', YStr ''http://security.ubuntu.com/ubuntu'')])],
     YDict [(''arches'', YList [YStr ''default'']),
            (''search'', YDict [
               (''primary'', YList [YStr (repo_url (get_ports_archive e))]),
               (''security'', YList [YStr (repo_url (get_ports_archive e))])]),
            (''failsafe'', YDict [
               (''primary'', YStr ''http://ports.ubuntu.com/ubuntu-ports''),
               (''security'', YStr ''http://ports.ubuntu.com/ubuntu-ports'')])]]"

definition get_system_info :: "env \<Rightarrow> dict" where
  "get_system_info e = [(''system_info'', YDict [(''package_mirrors'', package_mirrors e)])]"

definition reporting :: "env \<Rightarrow> node \<Rightarrow> token \<Rightarrow> string \<Rightarrow> yval" where
  \<comment> \<open>the value stored under \<open>'reporting'\<close>, the same in both composers\<close>
  "reporting e n tok base_url =
     YDict [(''maas'', YDict [
       (''type'', YStr ''webhook''),
       (''endpoint'', YStr (absolute_reverse e ''metadata-status'' [system_id n] base_url)),
       (''consumer_key'', YStr (consumer_key tok)),
       (''token_key'', YStr (token_key tok)),
       (''token_secret'', YStr (token_secret tok))])]"

definition with_apt_proxy :: "env \<Rightarrow> node \<Rightarrow> dict \<Rightarrow> dict" where
  \<comment> \<open>\<open>apt_proxy = get_apt_proxy_for_node(node)\<close>, then \<open>if apt_proxy: d['apt_proxy'] = apt_proxy\<close>\<close>
  "with_apt_proxy e n d =
     (case get_apt_proxy_for_node e n of
        Some p \<Rightarrow> if p \<noteq> [] then dict_set d ''apt_proxy'' (YStr p) else d
      | None \<Rightarrow> d)"

definition debconf_escape :: "string \<Rightarrow> string" where
  \<comment> \<open>line 217\<close>
  "debconf_escape s =
     replace newline [backslash, CHR ''n''] (replace backslash [backslash, backslash] s)"

definition cloud_init_config :: "env \<Rightarrow> node \<Rightarrow> token \<Rightarrow> string \<Rightarrow> dict" where
  \<comment> \<open>lines 181 to 213: the variable \<open>config\<close> of \<open>compose_cloud_init_preseed\<close>\<close>
  "cloud_init_config e n tok base_url =
     (let config = [(''manage_etc_hosts'', YBool False),
                    (''apt_preserve_sources_list'', YBool True),
                    (''manual_cache_clean'', YBool True),
                    (''reporting'', reporting e n tok base_url)];
          config = dict_update config (get_system_info e);
          config = with_apt_proxy e n config
      in dict_update config (get_archive_config e n False))"

definition preseed_line :: "string \<times> string \<times> string \<Rightarrow> string" where
  \<comment> \<open>\<open>"cloud-init   cloud-init/%s  %s %s" % (item_name, item_type, item_value)\<close>\<close>
  "preseed_line item =
     ''cloud-init   cloud-init/'' @ fst item @ ''  '' @ fst (snd item) @ '' '' @ snd (snd item)"

definition compose_cloud_init_preseed :: "env \<Rightarrow> node \<Rightarrow> token \<Rightarrow> string \<Rightarrow> string" where
  "compose_cloud_init_preseed e n tok base_url =
     (let credentials = urlencode e [(''oauth_consumer_key'', consumer_key tok),
                                     (''oauth_token_key'', token_key tok),
                                     (''oauth_token_secret'', token_secret tok)];
          local_config_yaml = safe_dump e (YDict (cloud_init_config e n tok base_url));
          local_config = debconf_escape local_config_yaml;
          preseed_items = [
            (''datasources'', ''multiselect'', ''MAAS''),
            (''maas-metadata-url'', ''string'', absolute_reverse e ''metadata'' [] base_url),
            (''maas-metadata-credentials'', ''string'', credentials),
            (''local-cloud-config'', ''string'', local_config)]
      in join [newline] (map preseed_line preseed_items))"

definition cloud_config ::
  "env \<Rightarrow> node \<Rightarrow> token \<Rightarrow> string \<Rightarrow> string \<Rightarrow> bool \<Rightarrow> int \<Rightarrow> string option \<Rightarrow> dict" where
  \<comment> \<open>lines 261 to 303: the variable \<open>cloud_config\<close> of \<open>_compose_cloud_init_preseed\<close>\<close>
  "cloud_config e n tok metadata_url base_url poweroff poweroff_timeout poweroff_condition =
     (let cloud_config = [
            (''datasource'', YDict [(''MAAS'', YDict [
               (''metadata_url'', YStr metadata_url),
               (''consumer_key'', YStr (consumer_key tok)),
               (''token_key'', YStr (token_key tok)),
               (''token_secret'', YStr (token_secret tok))])]),
            (''reporting'', reporting e n tok base_url),
            (''rsyslog'', YDict [(''remotes'', YDict [
               (''maas'', YStr (get_rsyslog_host_port e n))])])];
          cloud_config = dict_update cloud_config (get_system_info e);
          cloud_config = with_apt_proxy e n cloud_config;
          cloud_config = dict_update cloud_config (get_archive_config e n False)
      in if poweroff then
           dict_set cloud_config ''power_state''
             (YDict ([(''delay'', YStr ''now''),
                      (''mode'', YStr ''poweroff''),
                      (''timeout'', YInt poweroff_timeout)]
                     @ (case poweroff_condition of
                          Some c \<Rightarrow> [(''condition'', YStr c)]
                        | None \<Rightarrow> [])))
         else cloud_config)"

definition u_compose_cloud_init_preseed ::
  "env \<Rightarrow> node \<Rightarrow> token \<Rightarrow> string \<Rightarrow> string \<Rightarrow> bool \<Rightarrow> int \<Rightarrow> string option \<Rightarrow> string" where
  \<comment> \<open>\<open>_compose_cloud_init_preseed\<close>\<close>
  "u_compose_cloud_init_preseed e n tok metadata_url base_url poweroff poweroff_timeout
       poweroff_condition =
     ''#cloud-config'' @ [newline]
       @ safe_dump e (YDict (cloud_config e n tok metadata_url base_url poweroff poweroff_timeout
                               poweroff_condition))"

definition poweroff_of :: "node \<Rightarrow> bool" where
  \<comment> \<open>line 241\<close>
  "poweroff_of n = (status n \<noteq> ENTERING_RESCUE_MODE)"

definition poweroff_timeout_of :: "node \<Rightarrow> int" where
  \<comment> \<open>lines 242 to 244 and the \<open>int(...)\<close> of line 247; an hour is 3600 seconds, a week 604800\<close>
  "poweroff_timeout_of n = (if status n = DISK_ERASING then 7 * 24 * 3600 else 1 * 3600)"

definition poweroff_condition_text :: string where
  "poweroff_condition_text = ''test ! -e /tmp/block-poweroff''"

definition commissioning_cloud_config :: "env \<Rightarrow> node \<Rightarrow> token \<Rightarrow> string \<Rightarrow> dict" where
  \<comment> \<open>the \<open>cloud_config\<close> that \<open>compose_commissioning_preseed\<close> has dumped\<close>
  "commissioning_cloud_config e n tok base_url =
     cloud_config e n tok (absolute_reverse e ''metadata'' [] base_url) base_url
       (poweroff_of n) (poweroff_timeout_of n) (Some poweroff_condition_text)"

definition compose_commissioning_preseed :: "env \<Rightarrow> node \<Rightarrow> token \<Rightarrow> string \<Rightarrow> string" where
  "compose_commissioning_preseed e n tok base_url =
     u_compose_cloud_init_preseed e n tok (absolute_reverse e ''metadata'' [] base_url) base_url
       (poweroff_of n) (poweroff_timeout_of n) (Some poweroff_condition_text)"

definition curtin_cloud_config :: "env \<Rightarrow> node \<Rightarrow> token \<Rightarrow> string \<Rightarrow> dict" where
  \<comment> \<open>the \<open>cloud_config\<close> that \<open>compose_curtin_preseed\<close> has dumped (the defaults of the
      optional parameters: no power-off, timeout 3600, no condition)\<close>
  "curtin_cloud_config e n tok base_url =
     cloud_config e n tok (absolute_reverse e ''curtin-metadata'' [] base_url) base_url
       False 3600 None"

definition compose_curtin_preseed :: "env \<Rightarrow> node \<Rightarrow> token \<Rightarrow> string \<Rightarrow> string" where
  "compose_curtin_preseed e n tok base_url =
     u_compose_cloud_init_preseed e n tok (absolute_reverse e ''curtin-metadata'' [] base_url)
       base_url False 3600 None"

definition u_get_metadata_url :: "env \<Rightarrow> preseed_type \<Rightarrow> string \<Rightarrow> string" where
  \<comment> \<open>\<open>_get_metadata_url\<close>\<close>
  "u_get_metadata_url e preseed_type base_url =
     (if preseed_type = CURTIN then absolute_reverse e ''curtin-metadata'' [] base_url
      else absolute_reverse e ''metadata'' [] base_url)"

definition compose_preseed ::
  "env \<Rightarrow> preseed_type \<Rightarrow> node \<Rightarrow> delegate_call list \<times> (exn + string)" where
  \<comment> \<open>The first component lists the calls made to \<open>get_preseed_data\<close>, in order; the second is
      the returned document (\<open>Inr\<close>) or the exception that leaves the function (\<open>Inl\<close>).\<close>
  "compose_preseed e preseed_type n =
     (let tok = get_token_for_node e n;
          rack_controller = boot_rack_controller n;
          base_url = rack_url rack_controller
      in if preseed_type = COMMISSIONING then
           ([], Inr (compose_commissioning_preseed e n tok base_url))
         else
           (let metadata_url = u_get_metadata_url e preseed_type base_url
            in ([(preseed_type, n, tok, metadata_url)],
                (case get_preseed_data e preseed_type n tok metadata_url of
                   Returned preseed \<Rightarrow> Inr preseed
                 | Raised NotImplementedError \<Rightarrow>
                     if preseed_type = CURTIN then Inr (compose_curtin_preseed e n tok base_url)
                     else Inr (compose_cloud_init_preseed e n tok base_url)
                 | Raised NoSuchOperatingSystem \<Rightarrow> Inl NoSuchOperatingSystem
                 | Raised NoConnectionsAvailable \<Rightarrow> Inl NoConnectionsAvailable
                 | Raised (OtherException x) \<Rightarrow> Inl (OtherException x)))))"


section \<open>Sample inputs\<close>

text \<open>
  A small installation on which the functions are run: one rack controller, one machine, a
  default archive with a signing key and one additional repository.
\<close>

definition sample_token :: token where
  "sample_token = \<lparr>consumer_key = ''ck'', token_key = ''tk'', token_secret = ''ts''\<rparr>"

definition sample_rack :: rack_controller where
  "sample_rack = \<lparr>rack_url = ''http://rack.example:5240/MAAS''\<rparr>"

definition sample_node :: node where
  "sample_node = \<lparr>system_id = ''n1'', split_arch = (''amd64'', ''generic''),
     distro_series = ''xenial'', status = OTHER_STATUS 6, boot_rack_controller = sample_rack\<rparr>"

definition sample_archive :: package_repository where
  "sample_archive = \<lparr>repo_id = 1, repo_name = ''main_archive'',
     repo_url = ''http://archive.example/ubuntu'', repo_key = ''AK'', disabled_pockets = [],
     components = [], distributions = []\<rparr>"

definition sample_repo :: package_repository where
  "sample_repo = \<lparr>repo_id = 7, repo_name = ''My [Repo]'', repo_url = ''http://repo.example/apt'',
     repo_key = [], disabled_pockets = [], components = [], distributions = []\<rparr>"

definition sample_urlencode :: "(string \<times> string) list \<Rightarrow> string" where
  "sample_urlencode items = join ''&'' (map (\<lambda>kv. fst kv @ ''='' @ snd kv) items)"

definition sample_env :: env where
  "sample_env = \<lparr>enable_http_proxy = True, http_proxy = Some ''http://proxy.example/'',
     get_maas_facing_server_host = (\<lambda>r. ''rack.example''),
     get_default_archive = (\<lambda>arch. sample_archive),
     get_additional_repositories = (\<lambda>arch. [sample_repo]),
     get_main_archive = sample_archive,
     get_ports_archive = sample_archive,
     absolute_reverse = (\<lambda>name args base_url. base_url @ ''/'' @ name),
     get_token_for_node = (\<lambda>n. sample_token),
     get_preseed_data = (\<lambda>preseed_type n tok metadata_url. Raised NotImplementedError),
     safe_dump = (\<lambda>v. join '','' (all_keys v)),
     urlencode = sample_urlencode\<rparr>"


section \<open>Properties of the string functions\<close>

lemma of_char_digit_char: "d < 10 \<Longrightarrow> (of_char (digit_char d) :: nat) = 48 + d"
  by (simp add: digit_char_def)

lemma str_nat_nonempty: "str_nat n \<noteq> []"
  by (subst str_nat.simps) simp

lemma digit_char_inj:
  assumes "a < 10" "b < 10" "digit_char a = digit_char b"
  shows "a = b"
proof -
  have "(of_char (digit_char a) :: nat) = of_char (digit_char b)"
    using assms(3) by (rule arg_cong)
  then have "48 + a = 48 + b"
    by (simp only: of_char_digit_char [OF assms(1)] of_char_digit_char [OF assms(2)])
  then show ?thesis by simp
qed

lemma str_nat_small: "n < 10 \<Longrightarrow> str_nat n = [digit_char n]"
  by (subst str_nat.simps) simp

lemma str_nat_large:
  "\<not> n < 10 \<Longrightarrow> str_nat n = str_nat (n div 10) @ [digit_char (n mod 10)]"
  by (subst str_nat.simps) simp

lemma str_nat_digits:
  "c \<in> set (str_nat n) \<Longrightarrow> 48 \<le> (of_char c :: nat) \<and> (of_char c :: nat) \<le> 57"
proof (induction n arbitrary: c rule: str_nat.induct)
  case (1 n)
  show ?case
  proof (cases "n < 10")
    case True
    with "1.prems" have "c = digit_char n" by (simp add: str_nat_small)
    with True show ?thesis by (simp add: of_char_digit_char)
  next
    case False
    with "1.prems" have "c \<in> set (str_nat (n div 10)) \<or> c = digit_char (n mod 10)"
      by (auto simp add: str_nat_large [of n])
    then show ?thesis
    proof
      assume "c \<in> set (str_nat (n div 10))"
      with False show ?thesis by (rule "1.IH")
    next
      assume "c = digit_char (n mod 10)"
      then show ?thesis by (simp add: of_char_digit_char)
    qed
  qed
qed

lemma str_nat_length_small: "n < 10 \<Longrightarrow> length (str_nat n) = 1"
  by (simp add: str_nat_small)

lemma str_nat_length_large:
  assumes "\<not> n < 10"
  shows "length (str_nat n) \<ge> 2"
proof -
  have "length (str_nat (n div 10)) \<ge> 1"
    using str_nat_nonempty [of "n div 10"] by (cases "str_nat (n div 10)") simp_all
  then show ?thesis by (simp add: str_nat_large [OF assms])
qed

lemma str_nat_inj: "str_nat m = str_nat n \<Longrightarrow> m = n"
proof (induction m arbitrary: n rule: str_nat.induct)
  case (1 m)
  show ?case
  proof (cases "m < 10")
    case m: True
    show ?thesis
    proof (cases "n < 10")
      case True
      from "1.prems" have "digit_char m = digit_char n"
        by (simp add: str_nat_small m True)
      with m True show ?thesis by (rule digit_char_inj)
    next
      case False
      from str_nat_length_large [OF False] str_nat_length_small [OF m] "1.prems"
      show ?thesis by simp
    qed
  next
    case m: False
    show ?thesis
    proof (cases "n < 10")
      case True
      from str_nat_length_large [OF m] str_nat_length_small [OF True] "1.prems"
      show ?thesis by simp
    next
      case False
      have "str_nat (m div 10) @ [digit_char (m mod 10)]
          = str_nat (n div 10) @ [digit_char (n mod 10)]"
        using "1.prems" by (simp only: str_nat_large [OF m] str_nat_large [OF False])
      then have a: "str_nat (m div 10) = str_nat (n div 10)"
        and b: "digit_char (m mod 10) = digit_char (n mod 10)" by simp_all
      from m a have "m div 10 = n div 10" by (rule "1.IH")
      moreover have "m mod 10 = n mod 10" by (rule digit_char_inj [OF _ _ b]) simp_all
      ultimately show ?thesis by (metis div_mult_mod_eq)
    qed
  qed
qed

lemma str_nat_hd_not_minus: "hd (str_nat k) \<noteq> CHR ''-''"
proof
  assume h: "hd (str_nat k) = CHR ''-''"
  have "hd (str_nat k) \<in> set (str_nat k)" using str_nat_nonempty by simp
  from str_nat_digits [OF this] h show False by simp
qed

lemma str_int_inj: "str_int i = str_int j \<Longrightarrow> i = j"
proof -
  assume eq: "str_int i = str_int j"
  show ?thesis
  proof (cases "i < 0")
    case i: True
    show ?thesis
    proof (cases "j < 0")
      case True
      with i eq have "str_nat (nat (- i)) = str_nat (nat (- j))" by (simp add: str_int_def)
      then have "nat (- i) = nat (- j)" by (rule str_nat_inj)
      with i True show ?thesis by simp
    next
      case False
      with i eq have "CHR ''-'' # str_nat (nat (- i)) = str_nat (nat j)"
        by (simp add: str_int_def)
      then have "hd (str_nat (nat j)) = CHR ''-''" by (metis list.sel(1))
      with str_nat_hd_not_minus show ?thesis by blast
    qed
  next
    case i: False
    show ?thesis
    proof (cases "j < 0")
      case True
      with i eq have "CHR ''-'' # str_nat (nat (- j)) = str_nat (nat i)"
        by (simp add: str_int_def)
      then have "hd (str_nat (nat i)) = CHR ''-''" by (metis list.sel(1))
      with str_nat_hd_not_minus show ?thesis by blast
    next
      case False
      with i eq have "str_nat (nat i) = str_nat (nat j)" by (simp add: str_int_def)
      then have "nat i = nat j" by (rule str_nat_inj)
      with i False show ?thesis by simp
    qed
  qed
qed

lemma replace_append: "replace old new (s @ t) = replace old new s @ replace old new t"
  by (simp add: replace_def)

lemma replace_absent: "old \<notin> set t \<Longrightarrow> replace old new t = t"
  by (induction t) (auto simp: replace_def)

lemma lower_append: "lower (s @ t) = lower s @ lower t"
  by (simp add: lower_def)

lemma lower_fixed: "(\<And>c. c \<in> set t \<Longrightarrow> lower_char c = c) \<Longrightarrow> lower t = t"
  by (simp add: lower_def map_idI)

lemma space_is_whitespace: "isspace_char (CHR '' '')"
  by (simp add: isspace_char_def)

lemma dropWhile_keeps:
  assumes "t \<noteq> []" "\<not> P (hd t)"
  shows "dropWhile P (s @ t) = dropWhile P s @ t"
proof -
  from assms obtain a r where t: "t = a # r" and a: "\<not> P a" by (cases t) auto
  show ?thesis by (induction s) (simp_all add: t a)
qed

lemma dropWhile_stops: "u \<noteq> [] \<Longrightarrow> \<not> P (hd u) \<Longrightarrow> dropWhile P (u @ x) = u @ x"
  by (cases u) simp_all

lemma strip_append:
  assumes "t \<noteq> []" "\<not> isspace_char (hd t)" "\<not> isspace_char (last t)"
  shows "strip (s @ t) = dropWhile isspace_char s @ t"
proof -
  have 1: "dropWhile isspace_char (s @ t) = dropWhile isspace_char s @ t"
    using assms(1,2) by (rule dropWhile_keeps)
  have "rev t \<noteq> []" "\<not> isspace_char (hd (rev t))"
    using assms(1,3) by (simp_all add: hd_rev)
  then have "dropWhile isspace_char (rev t @ rev (dropWhile isspace_char s))
        = rev t @ rev (dropWhile isspace_char s)"
    by (rule dropWhile_stops)
  with 1 show ?thesis by (simp add: strip_def)
qed

lemma digit_is_stable:
  assumes "48 \<le> (of_char c :: nat)" "(of_char c :: nat) \<le> 57"
  shows "\<not> isspace_char c" "lower_char c = c"
  using assms by (simp_all add: isspace_char_def lower_char_def)

lemma str_int_chars:
  assumes "c \<in> set (str_int i)"
  shows "\<not> isspace_char c \<and> lower_char c = c"
proof (cases "c = CHR ''-''")
  case True
  then show ?thesis by (simp add: isspace_char_def lower_char_def)
next
  case False
  with assms have "c \<in> set (str_nat (nat (- i))) \<or> c \<in> set (str_nat (nat i))"
    by (auto simp: str_int_def split: if_splits)
  then have "48 \<le> (of_char c :: nat) \<and> (of_char c :: nat) \<le> 57"
    using str_nat_digits by blast
  then show ?thesis by (simp add: digit_is_stable)
qed

lemma str_int_nonempty: "str_int i \<noteq> []"
  by (simp add: str_int_def str_nat_nonempty)

lemma last_str_int_digit:
  "48 \<le> (of_char (last (str_int i)) :: nat) \<and> (of_char (last (str_int i)) :: nat) \<le> 57"
proof -
  have "last (str_int i) \<in> set (str_nat (nat (- i))) \<or> last (str_int i) \<in> set (str_nat (nat i))"
    using str_nat_nonempty by (simp add: str_int_def)
  then show ?thesis using str_nat_digits by blast
qed

lemma sanitize_suffix:
  "lower (replace (CHR '' '') ''_'' (strip (s @ ''_'' @ str_int i)))
   = lower (replace (CHR '' '') ''_'' (dropWhile isspace_char s)) @ ''_'' @ str_int i"
proof -
  define t where "t = ''_'' @ str_int i"
  have ne: "t \<noteq> []" by (simp add: t_def)
  have hd: "\<not> isspace_char (hd t)" by (simp add: t_def isspace_char_def)
  have "last t = last (str_int i)" using str_int_nonempty by (simp add: t_def)
  then have "last t \<in> set (str_int i)" using str_int_nonempty by simp
  then have lst: "\<not> isspace_char (last t)" using str_int_chars by blast
  have stable: "\<And>c. c \<in> set t \<Longrightarrow> \<not> isspace_char c \<and> lower_char c = c"
    using str_int_chars by (auto simp: t_def isspace_char_def lower_char_def)
  have "CHR '' '' \<notin> set t" using stable space_is_whitespace by blast
  then have r: "replace (CHR '' '') ''_'' t = t" by (rule replace_absent)
  have l: "lower t = t" using stable by (intro lower_fixed) blast
  have "strip (s @ t) = dropWhile isspace_char s @ t"
    using ne hd lst by (rule strip_append)
  then have "lower (replace (CHR '' '') ''_'' (strip (s @ t)))
      = lower (replace (CHR '' '') ''_'' (dropWhile isspace_char s)) @ t"
    by (simp only: replace_append lower_append r l)
  then show ?thesis by (simp only: t_def)
qed

lemma make_clean_repo_name_shape:
  "make_clean_repo_name repo
   = lower (replace (CHR '' '') ''_''
       (dropWhile isspace_char (translate_delete special_characters (repo_name repo))))
     @ ''_'' @ str_int (repo_id repo)"
  unfolding make_clean_repo_name_def Let_def by (rule sanitize_suffix)

lemma make_clean_repo_name_not_archive_key: "make_clean_repo_name repo \<noteq> ''archive_key''"
proof
  assume eq: "make_clean_repo_name repo = ''archive_key''"
  have "last (make_clean_repo_name repo) = last (str_int (repo_id repo))"
    using str_int_nonempty by (simp add: make_clean_repo_name_shape)
  with eq have "last (str_int (repo_id repo)) = CHR ''y''" by simp
  with last_str_int_digit [of "repo_id repo"] show False by simp
qed


section \<open>Sanitized repository names\<close>

text \<open>
  Claim C7. Two repositories with the same display name and different numeric identifiers
  get different sanitized names: the name ends with the decimal numeral of the identifier,
  which \<open>strip\<close>, \<open>replace\<close> and \<open>lower\<close> leave as it is.
\<close>

theorem make_clean_repo_name_distinct_ids:
  assumes "repo_name r1 = repo_name r2" "repo_id r1 \<noteq> repo_id r2"
  shows "make_clean_repo_name r1 \<noteq> make_clean_repo_name r2"
proof
  assume "make_clean_repo_name r1 = make_clean_repo_name r2"
  then have "str_int (repo_id r1) = str_int (repo_id r2)"
    by (simp add: make_clean_repo_name_shape assms(1))
  then have "repo_id r1 = repo_id r2" by (rule str_int_inj)
  with assms(2) show False by simp
qed

theorem make_clean_repo_name_distinct_ids_witness:
  "repo_name \<lparr>repo_id = 4, repo_name = ''My Repo'', repo_url = ''http://a.example/ubuntu'',
               repo_key = [], disabled_pockets = [], components = [], distributions = []\<rparr>
   = repo_name \<lparr>repo_id = 12, repo_name = ''My Repo'', repo_url = ''http://b.example/ubuntu'',
                 repo_key = [], disabled_pockets = [], components = [], distributions = []\<rparr>
   \<and> repo_id \<lparr>repo_id = 4, repo_name = ''My Repo'', repo_url = ''http://a.example/ubuntu'',
               repo_key = [], disabled_pockets = [], components = [], distributions = []\<rparr>
   \<noteq> repo_id \<lparr>repo_id = 12, repo_name = ''My Repo'', repo_url = ''http://b.example/ubuntu'',
                 repo_key = [], disabled_pockets = [], components = [], distributions = []\<rparr>
   \<and> make_clean_repo_name
         \<lparr>repo_id = 4, repo_name = ''My Repo'', repo_url = ''http://a.example/ubuntu'',
          repo_key = [], disabled_pockets = [], components = [], distributions = []\<rparr>
   \<noteq> make_clean_repo_name
         \<lparr>repo_id = 12, repo_name = ''My Repo'', repo_url = ''http://b.example/ubuntu'',
          repo_key = [], disabled_pockets = [], components = [], distributions = []\<rparr>"
  using make_clean_repo_name_distinct_ids
    [of "\<lparr>repo_id = 4, repo_name = ''My Repo'', repo_url = ''http://a.example/ubuntu'',
          repo_key = [], disabled_pockets = [], components = [], distributions = []\<rparr>"
        "\<lparr>repo_id = 12, repo_name = ''My Repo'', repo_url = ''http://b.example/ubuntu'',
          repo_key = [], disabled_pockets = [], components = [], distributions = []\<rparr>"]
  by simp

section \<open>The debconf escaping\<close>

lemma escape_char_wise:
  "debconf_escape s =
     concat (map (\<lambda>c. if c = backslash then [backslash, backslash]
                        else if c = newline then [backslash, CHR ''n''] else [c]) s)"
  by (induction s) (simp_all add: debconf_escape_def replace_def backslash_def newline_def)

lemma escape_plain:
  "backslash \<notin> set s \<Longrightarrow> newline \<notin> set s \<Longrightarrow> debconf_escape s = s"
  by (induction s) (auto simp: escape_char_wise)

lemma escape_append: "debconf_escape (s @ t) = debconf_escape s @ debconf_escape t"
  by (simp add: escape_char_wise)

text \<open>
  Claim C9. The escaping of line 217 doubles every backslash and then turns every newline
  into the two characters backslash and \<open>n\<close>. Character by character: a backslash
  becomes two, a newline becomes backslash-n, any other character stays. In particular a text
  with one backslash and one newline, and neither anywhere else, comes out with the
  doubled backslash and the two-character sequence in their places and the rest unchanged.
\<close>

theorem debconf_escape_spec:
  "debconf_escape s
     = replace newline [backslash, CHR ''n''] (replace backslash [backslash, backslash] s)
   \<and> debconf_escape s
     = concat (map (\<lambda>c. if c = backslash then [backslash, backslash]
                          else if c = newline then [backslash, CHR ''n''] else [c]) s)
   \<and> (backslash \<notin> set (a @ b @ c) \<and> newline \<notin> set (a @ b @ c) \<longrightarrow>
        debconf_escape (a @ [backslash] @ b @ [newline] @ c)
          = a @ [backslash, backslash] @ b @ [backslash, CHR ''n''] @ c
      \<and> debconf_escape (a @ [newline] @ b @ [backslash] @ c)
          = a @ [backslash, CHR ''n''] @ b @ [backslash, backslash] @ c)"
proof (intro conjI impI)
  show "debconf_escape s
     = replace newline [backslash, CHR ''n''] (replace backslash [backslash, backslash] s)"
    by (simp add: debconf_escape_def)
  show "debconf_escape s
     = concat (map (\<lambda>c. if c = backslash then [backslash, backslash]
                          else if c = newline then [backslash, CHR ''n''] else [c]) s)"
    by (rule escape_char_wise)
next
  assume h: "backslash \<notin> set (a @ b @ c) \<and> newline \<notin> set (a @ b @ c)"
  then have p: "debconf_escape a = a" "debconf_escape b = b" "debconf_escape c = c"
    by (simp_all add: escape_plain)
  have s: "debconf_escape [backslash] = [backslash, backslash]"
    "debconf_escape [newline] = [backslash, CHR ''n'']"
    by (simp_all add: escape_char_wise backslash_def newline_def)
  show "debconf_escape (a @ [backslash] @ b @ [newline] @ c)
          = a @ [backslash, backslash] @ b @ [backslash, CHR ''n''] @ c"
    by (simp only: escape_append p s)
  show "debconf_escape (a @ [newline] @ b @ [backslash] @ c)
          = a @ [backslash, CHR ''n''] @ b @ [backslash, backslash] @ c"
    by (simp only: escape_append p s)
qed

theorem debconf_escape_spec_witness:
  "backslash \<notin> set (''a: '' @ ''b'' @ ''c: d'') \<and> newline \<notin> set (''a: '' @ ''b'' @ ''c: d'')
   \<and> debconf_escape (''a: '' @ [backslash] @ ''b'' @ [newline] @ ''c: d'')
       = ''a: '' @ [backslash, backslash] @ ''b'' @ [backslash, CHR ''n''] @ ''c: d''"
  using debconf_escape_spec [of "[]" "''a: ''" "''b''" "''c: d''"]
  by (simp add: backslash_def newline_def)

section \<open>The APT proxy\<close>

text \<open>
  Claim C5. With the proxy flag off there is no proxy. With the flag on, a configured value
  that is non-empty and not all whitespace is returned unchanged; a missing, empty or
  all-whitespace value gives \<open>http://<rack-host>:8000/\<close>, the host being that of the
  machine's boot rack controller.
\<close>

theorem get_apt_proxy_for_node_spec:
  "(\<not> enable_http_proxy e \<longrightarrow> get_apt_proxy_for_node e n = None)
   \<and> (enable_http_proxy e \<and> http_proxy e = Some p \<and> p \<noteq> [] \<and> \<not> list_all isspace_char p \<longrightarrow>
        get_apt_proxy_for_node e n = Some p)
   \<and> (enable_http_proxy e
        \<and> (http_proxy e = None \<or> http_proxy e = Some [] \<or>
           (http_proxy e = Some p \<and> list_all isspace_char p)) \<longrightarrow>
        get_apt_proxy_for_node e n
          = Some (''http://'' @ get_maas_facing_server_host e (boot_rack_controller n)
                  @ '':8000/''))"
  by (auto simp: get_apt_proxy_for_node_def isspace_def)

theorem get_apt_proxy_for_node_spec_witness:
  "get_apt_proxy_for_node (sample_env\<lparr>enable_http_proxy := False\<rparr>) sample_node = None
   \<and> get_apt_proxy_for_node sample_env sample_node = Some ''http://proxy.example/''
   \<and> get_apt_proxy_for_node (sample_env\<lparr>http_proxy := Some ''  ''\<rparr>) sample_node
       = Some ''http://rack.example:8000/''
   \<and> get_apt_proxy_for_node (sample_env\<lparr>http_proxy := Some [CHR 0xA0, CHR 0x85]\<rparr>) sample_node
       = Some ''http://rack.example:8000/''
   \<and> get_apt_proxy_for_node (sample_env\<lparr>http_proxy := None\<rparr>) sample_node
       = Some ''http://rack.example:8000/''"
  using get_apt_proxy_for_node_spec
      [where e = "sample_env\<lparr>enable_http_proxy := False\<rparr>" and n = sample_node]
    get_apt_proxy_for_node_spec
      [where e = sample_env and p = "''http://proxy.example/''" and n = sample_node]
    get_apt_proxy_for_node_spec
      [where e = "sample_env\<lparr>http_proxy := Some ''  ''\<rparr>" and p = "''  ''" and n = sample_node]
    get_apt_proxy_for_node_spec
      [where e = "sample_env\<lparr>http_proxy := Some [CHR 0xA0, CHR 0x85]\<rparr>"
         and p = "[CHR 0xA0, CHR 0x85]" and n = sample_node]
    get_apt_proxy_for_node_spec
      [where e = "sample_env\<lparr>http_proxy := None\<rparr>" and n = sample_node]
  by (simp add: sample_env_def isspace_char_def)

section \<open>The source line of a generic repository\<close>

lemma foldl_append_concat: "foldl (\<lambda>acc x. acc @ f x) a xs = a @ concat (map f xs)"
  by (induction xs arbitrary: a) simp_all

text \<open>
  Claim C6, as amended. For a repository that is neither PPA shorthand nor on the PPA host:
  with no distributions and no components the source entry is the single line
  \<open>deb <url> <series> main\<close>; with the distributions \<open>[a, b]\<close> it is two \<open>deb\<close> lines, one
  per distribution, with the same component list, each ended by a newline (so the entry ends
  with a newline; the lines are not newline-joined).
\<close>

theorem source_url_generic:
  "\<not> startswith (repo_url repo) ''ppa:'' \<and> \<not> contains ''ppa.launchpad.net'' (repo_url repo) \<longrightarrow>
     (distributions repo = [] \<and> components repo = [] \<longrightarrow>
        source_url n repo = ''deb '' @ repo_url repo @ '' '' @ distro_series n @ '' main'')
     \<and> (distributions repo = [a, b] \<longrightarrow>
        source_url n repo
          = (''deb '' @ repo_url repo @ '' '' @ a @ '' '' @ component_string repo @ [newline])
            @ (''deb '' @ repo_url repo @ '' '' @ b @ '' '' @ component_string repo @ [newline]))
     \<and> (distributions repo \<noteq> [] \<longrightarrow>
        source_url n repo
          = concat (map (\<lambda>dist. ''deb '' @ repo_url repo @ '' '' @ dist @ '' ''
                                  @ component_string repo @ [newline])
                      (distributions repo)))
     \<and> component_string repo
         = (if components repo = [] then ''main''
            else strip (concat (map (\<lambda>component. component @ '' '') (components repo))))
     \<and> lookup_path (source_entry n repo) [''source''] = Some (YStr (source_url n repo))"
  by (simp add: source_url_def component_string_def strip_def isspace_char_def
      source_entry_def dict_get_def foldl_append_concat)

theorem source_url_generic_witness:
  "\<not> startswith (repo_url sample_repo) ''ppa:''
   \<and> \<not> contains ''ppa.launchpad.net'' (repo_url sample_repo)
   \<and> distributions sample_repo = [] \<and> components sample_repo = []
   \<and> distributions (sample_repo\<lparr>distributions := [''a'', ''b'']\<rparr>) = [''a'', ''b'']
   \<and> source_url sample_node sample_repo = ''deb http://repo.example/apt xenial main''
   \<and> source_url sample_node (sample_repo\<lparr>distributions := [''a'', ''b'']\<rparr>)
       = ''deb http://repo.example/apt a main'' @ [newline]
         @ ''deb http://repo.example/apt b main'' @ [newline]"
  using source_url_generic [where repo = sample_repo and n = sample_node]
    source_url_generic [where repo = "sample_repo\<lparr>distributions := [''a'', ''b'']\<rparr>"
       and n = sample_node and a = "''a''" and b = "''b''"]
  by (simp add: sample_repo_def sample_node_def startswith_def component_string_def strip_def
      isspace_char_def)

theorem source_url_newline_joined_counterexample:
  "\<not> startswith (repo_url (sample_repo\<lparr>distributions := [''a'', ''b'']\<rparr>)) ''ppa:''
   \<and> \<not> contains ''ppa.launchpad.net'' (repo_url (sample_repo\<lparr>distributions := [''a'', ''b'']\<rparr>))
   \<and> source_url sample_node (sample_repo\<lparr>distributions := [''a'', ''b'']\<rparr>)
       \<noteq> join [newline] [''deb http://repo.example/apt a main'',
                          ''deb http://repo.example/apt b main'']"
  by (simp add: sample_repo_def sample_node_def startswith_def source_url_def
      component_string_def strip_def isspace_char_def)

section \<open>Power-off after commissioning\<close>

lemma dict_get_dict_set:
  "dict_get (dict_set d k v) k' = (if k' = k then Some v else dict_get d k')"
  by (induction d) (auto simp: dict_get_def)

lemma dict_update_single: "dict_update d [(k, v)] = dict_set d k v"
  by (simp add: dict_update_def)

lemma dict_get_with_apt_proxy:
  "dict_get (with_apt_proxy e n d) k =
     (if k = ''apt_proxy'' then
        (case get_apt_proxy_for_node e n of
           Some p \<Rightarrow> if p \<noteq> [] then Some (YStr p) else dict_get d k
         | None \<Rightarrow> dict_get d k)
      else dict_get d k)"
  by (simp add: with_apt_proxy_def dict_get_dict_set split: option.splits)

lemma dict_get_cloud_config:
  "dict_get (cloud_config e n tok metadata_url base_url poweroff poweroff_timeout
               poweroff_condition) k =
     (if k = ''power_state'' then
        (if poweroff then
           Some (YDict ([(''delay'', YStr ''now''), (''mode'', YStr ''poweroff''),
                         (''timeout'', YInt poweroff_timeout)]
                        @ (case poweroff_condition of
                             Some c \<Rightarrow> [(''condition'', YStr c)] | None \<Rightarrow> [])))
         else None)
      else if k = ''apt'' then Some (YDict (apt_config e n False))
      else if k = ''apt_proxy'' then
        (case get_apt_proxy_for_node e n of
           Some p \<Rightarrow> if p \<noteq> [] then Some (YStr p) else None
         | None \<Rightarrow> None)
      else if k = ''system_info'' then Some (YDict [(''package_mirrors'', package_mirrors e)])
      else if k = ''rsyslog'' then
        Some (YDict [(''remotes'', YDict [(''maas'', YStr (get_rsyslog_host_port e n))])])
      else if k = ''reporting'' then Some (reporting e n tok base_url)
      else if k = ''datasource'' then
        Some (YDict [(''MAAS'', YDict [
               (''metadata_url'', YStr metadata_url),
               (''consumer_key'', YStr (consumer_key tok)),
               (''token_key'', YStr (token_key tok)),
               (''token_secret'', YStr (token_secret tok))])])
      else None)"
  by (simp add: cloud_config_def get_system_info_def get_archive_config_def dict_update_single
      dict_get_dict_set dict_get_with_apt_proxy Let_def split: option.splits)
   (simp add: dict_get_def)

text \<open>
  Claim C3. Whether to power off, and the timeout, depend on the machine's status only:
  \<open>DISK_ERASING\<close> gives power-off with timeout 604800, \<open>ENTERING_RESCUE_MODE\<close> gives no
  power-off, every other status gives power-off with timeout 3600. The commissioning document
  is the dump of a configuration whose \<open>power_state\<close> entry is absent without power-off and
  otherwise carries the fixed condition \<open>test ! -e /tmp/block-poweroff\<close>.
\<close>

theorem poweroff_policy:
  "(status n = DISK_ERASING \<longrightarrow> poweroff_of n \<and> poweroff_timeout_of n = 604800)
   \<and> (status n = ENTERING_RESCUE_MODE \<longrightarrow> \<not> poweroff_of n)
   \<and> (status n \<noteq> DISK_ERASING \<and> status n \<noteq> ENTERING_RESCUE_MODE \<longrightarrow>
        poweroff_of n \<and> poweroff_timeout_of n = 3600)
   \<and> (status n = status n' \<longrightarrow>
        poweroff_of n = poweroff_of n' \<and> poweroff_timeout_of n = poweroff_timeout_of n')
   \<and> compose_commissioning_preseed e n tok base_url
       = ''#cloud-config'' @ [newline]
         @ safe_dump e (YDict (commissioning_cloud_config e n tok base_url))
   \<and> dict_get (commissioning_cloud_config e n tok base_url) ''power_state''
       = (if poweroff_of n then
            Some (YDict [(''delay'', YStr ''now''), (''mode'', YStr ''poweroff''),
                         (''timeout'', YInt (poweroff_timeout_of n)),
                         (''condition'', YStr ''test ! -e /tmp/block-poweroff'')])
          else None)"
proof (intro conjI)
  show "dict_get (commissioning_cloud_config e n tok base_url) ''power_state''
       = (if poweroff_of n then
            Some (YDict [(''delay'', YStr ''now''), (''mode'', YStr ''poweroff''),
                         (''timeout'', YInt (poweroff_timeout_of n)),
                         (''condition'', YStr ''test ! -e /tmp/block-poweroff'')])
          else None)"
    by (simp add: commissioning_cloud_config_def dict_get_cloud_config
        poweroff_condition_text_def)
qed (simp_all add: poweroff_of_def poweroff_timeout_of_def compose_commissioning_preseed_def
        u_compose_cloud_init_preseed_def commissioning_cloud_config_def)

theorem poweroff_policy_witness:
  "status (sample_node\<lparr>status := DISK_ERASING\<rparr>) = DISK_ERASING
   \<and> status (sample_node\<lparr>status := ENTERING_RESCUE_MODE\<rparr>) = ENTERING_RESCUE_MODE
   \<and> status sample_node \<noteq> DISK_ERASING \<and> status sample_node \<noteq> ENTERING_RESCUE_MODE
   \<and> dict_get (commissioning_cloud_config sample_env (sample_node\<lparr>status := DISK_ERASING\<rparr>)
                 sample_token []) ''power_state''
       = Some (YDict [(''delay'', YStr ''now''), (''mode'', YStr ''poweroff''),
                      (''timeout'', YInt 604800),
                      (''condition'', YStr ''test ! -e /tmp/block-poweroff'')])
   \<and> dict_get (commissioning_cloud_config sample_env
                 (sample_node\<lparr>status := ENTERING_RESCUE_MODE\<rparr>) sample_token [])
         ''power_state'' = None
   \<and> dict_get (commissioning_cloud_config sample_env sample_node sample_token [])
         ''power_state''
       = Some (YDict [(''delay'', YStr ''now''), (''mode'', YStr ''poweroff''),
                      (''timeout'', YInt 3600),
                      (''condition'', YStr ''test ! -e /tmp/block-poweroff'')])"
  using poweroff_policy [where n = "sample_node\<lparr>status := DISK_ERASING\<rparr>"
      and n' = "sample_node\<lparr>status := DISK_ERASING\<rparr>" and e = sample_env
      and tok = sample_token and base_url = "[]"]
    poweroff_policy [where n = "sample_node\<lparr>status := ENTERING_RESCUE_MODE\<rparr>"
      and n' = "sample_node\<lparr>status := ENTERING_RESCUE_MODE\<rparr>" and e = sample_env
      and tok = sample_token and base_url = "[]"]
    poweroff_policy [where n = sample_node and n' = sample_node and e = sample_env
      and tok = sample_token and base_url = "[]"]
  by (simp add: sample_node_def)

section \<open>The dispatch of \<open>compose_preseed\<close>\<close>

lemma delegate_unused_proxy:
  "get_apt_proxy_for_node (e\<lparr>get_preseed_data := g\<rparr>) n = get_apt_proxy_for_node e n"
  by (simp add: get_apt_proxy_for_node_def split: option.splits)

lemma delegate_unused_apt:
  "get_archive_config (e\<lparr>get_preseed_data := g\<rparr>) n p = get_archive_config e n p"
  by (simp add: get_archive_config_def apt_config_def default_apt_def delegate_unused_proxy
      cong: option.case_cong)

lemma delegate_unused_cloud_config:
  "cloud_config (e\<lparr>get_preseed_data := g\<rparr>) n tok metadata_url base_url po pt pc
   = cloud_config e n tok metadata_url base_url po pt pc"
  by (simp add: cloud_config_def delegate_unused_apt with_apt_proxy_def delegate_unused_proxy
      get_system_info_def package_mirrors_def reporting_def get_rsyslog_host_port_def
      cong: option.case_cong)

lemma delegate_unused_commissioning:
  "compose_commissioning_preseed (e\<lparr>get_preseed_data := g\<rparr>) n tok base_url
   = compose_commissioning_preseed e n tok base_url"
  by (simp add: compose_commissioning_preseed_def u_compose_cloud_init_preseed_def
      delegate_unused_cloud_config)

text \<open>
  Claim C1. For \<open>COMMISSIONING\<close> the composer makes no call to the OS-specific provider
  (the list of calls is empty and the result does not depend on the provider) and returns its
  own cloud-config document. For every other kind it calls the provider once, with the kind,
  the machine, the token and the metadata URL. A returned preseed is passed on; on
  \<open>NotImplementedError\<close> the composer returns its own document, the curtin cloud-config for
  \<open>CURTIN\<close> and the debconf lines otherwise; \<open>NoSuchOperatingSystem\<close> and
  \<open>NoConnectionsAvailable\<close> leave the function unchanged.
\<close>

theorem compose_preseed_dispatch:
  "(let tok = get_token_for_node e n;
        base_url = rack_url (boot_rack_controller n);
        metadata_url = u_get_metadata_url e preseed_type base_url;
        delegate = get_preseed_data e preseed_type n tok metadata_url
    in compose_preseed e COMMISSIONING n
         = ([], Inr (compose_commissioning_preseed e n tok base_url))
       \<and> compose_preseed (e\<lparr>get_preseed_data := g\<rparr>) COMMISSIONING n
         = compose_preseed e COMMISSIONING n
       \<and> (preseed_type \<noteq> COMMISSIONING \<longrightarrow>
            fst (compose_preseed e preseed_type n) = [(preseed_type, n, tok, metadata_url)]
            \<and> (delegate = Returned preseed \<longrightarrow>
                  snd (compose_preseed e preseed_type n) = Inr preseed)
            \<and> (delegate = Raised NotImplementedError \<and> preseed_type = CURTIN \<longrightarrow>
                  snd (compose_preseed e preseed_type n)
                    = Inr (compose_curtin_preseed e n tok base_url))
            \<and> (delegate = Raised NotImplementedError \<and> preseed_type \<noteq> CURTIN \<longrightarrow>
                  snd (compose_preseed e preseed_type n)
                    = Inr (compose_cloud_init_preseed e n tok base_url))
            \<and> (delegate = Raised NoSuchOperatingSystem \<longrightarrow>
                  snd (compose_preseed e preseed_type n) = Inl NoSuchOperatingSystem)
            \<and> (delegate = Raised NoConnectionsAvailable \<longrightarrow>
                  snd (compose_preseed e preseed_type n) = Inl NoConnectionsAvailable))
       \<and> compose_commissioning_preseed e n tok base_url
           = ''#cloud-config'' @ [newline]
             @ safe_dump e (YDict (commissioning_cloud_config e n tok base_url))
       \<and> compose_curtin_preseed e n tok base_url
           = ''#cloud-config'' @ [newline]
             @ safe_dump e (YDict (curtin_cloud_config e n tok base_url))
       \<and> compose_cloud_init_preseed e n tok base_url
           = join [newline] (map preseed_line [
               (''datasources'', ''multiselect'', ''MAAS''),
               (''maas-metadata-url'', ''string'', absolute_reverse e ''metadata'' [] base_url),
               (''maas-metadata-credentials'', ''string'',
                urlencode e [(''oauth_consumer_key'', consumer_key tok),
                             (''oauth_token_key'', token_key tok),
                             (''oauth_token_secret'', token_secret tok)]),
               (''local-cloud-config'', ''string'',
                debconf_escape (safe_dump e (YDict (cloud_init_config e n tok base_url))))]))"
proof -
  have indep: "compose_preseed (e\<lparr>get_preseed_data := g\<rparr>) COMMISSIONING n
         = compose_preseed e COMMISSIONING n"
    by (simp add: compose_preseed_def Let_def delegate_unused_commissioning)
  show ?thesis
    unfolding Let_def
    by (intro conjI impI indep)
       (auto simp add: compose_preseed_def Let_def compose_commissioning_preseed_def
          compose_curtin_preseed_def u_compose_cloud_init_preseed_def
          commissioning_cloud_config_def curtin_cloud_config_def compose_cloud_init_preseed_def)
qed

theorem compose_preseed_dispatch_witness:
  "CURTIN \<noteq> COMMISSIONING \<and> OTHER_TYPE ''preseed_master'' \<noteq> COMMISSIONING
   \<and> OTHER_TYPE ''preseed_master'' \<noteq> CURTIN
   \<and> get_preseed_data sample_env CURTIN sample_node sample_token
        ''http://rack.example:5240/MAAS/curtin-metadata'' = Raised NotImplementedError
   \<and> compose_preseed sample_env COMMISSIONING sample_node
       = ([], Inr (compose_commissioning_preseed sample_env sample_node sample_token
                     ''http://rack.example:5240/MAAS''))
   \<and> compose_preseed sample_env CURTIN sample_node
       = ([(CURTIN, sample_node, sample_token, ''http://rack.example:5240/MAAS/curtin-metadata'')],
          Inr (compose_curtin_preseed sample_env sample_node sample_token
                 ''http://rack.example:5240/MAAS''))
   \<and> compose_preseed sample_env (OTHER_TYPE ''preseed_master'') sample_node
       = ([(OTHER_TYPE ''preseed_master'', sample_node, sample_token,
            ''http://rack.example:5240/MAAS/metadata'')],
          Inr (compose_cloud_init_preseed sample_env sample_node sample_token
                 ''http://rack.example:5240/MAAS''))
   \<and> compose_preseed
         (sample_env\<lparr>get_preseed_data := (\<lambda>t n tok u. Raised NoSuchOperatingSystem)\<rparr>)
         CURTIN sample_node
       = ([(CURTIN, sample_node, sample_token, ''http://rack.example:5240/MAAS/curtin-metadata'')],
          Inl NoSuchOperatingSystem)
   \<and> compose_preseed
         (sample_env\<lparr>get_preseed_data := (\<lambda>t n tok u. Raised NoConnectionsAvailable)\<rparr>)
         (OTHER_TYPE ''preseed_master'') sample_node
       = ([(OTHER_TYPE ''preseed_master'', sample_node, sample_token,
            ''http://rack.example:5240/MAAS/metadata'')],
          Inl NoConnectionsAvailable)"
proof -
  have env: "get_token_for_node sample_env = (\<lambda>n. sample_token)"
    "get_preseed_data sample_env = (\<lambda>t n tok u. Raised NotImplementedError)"
    "absolute_reverse sample_env = (\<lambda>name args base_url. base_url @ ''/'' @ name)"
    by (simp_all add: sample_env_def)
  have node: "rack_url (boot_rack_controller sample_node) = ''http://rack.example:5240/MAAS''"
    by (simp add: sample_node_def sample_rack_def)
  have pair: "\<And>p a b. fst p = a \<Longrightarrow> snd p = b \<Longrightarrow> p = (a, b)" by auto
  note d1 = compose_preseed_dispatch [where e = sample_env and n = sample_node
      and preseed_type = CURTIN, unfolded Let_def]
  note d2 = compose_preseed_dispatch [where e = sample_env and n = sample_node
      and preseed_type = "OTHER_TYPE ''preseed_master''", unfolded Let_def]
  note d3 = compose_preseed_dispatch
      [where e = "sample_env\<lparr>get_preseed_data := (\<lambda>t n tok u. Raised NoSuchOperatingSystem)\<rparr>"
       and n = sample_node and preseed_type = CURTIN, unfolded Let_def]
  note d4 = compose_preseed_dispatch
      [where e = "sample_env\<lparr>get_preseed_data := (\<lambda>t n tok u. Raised NoConnectionsAvailable)\<rparr>"
       and n = sample_node and preseed_type = "OTHER_TYPE ''preseed_master''", unfolded Let_def]
  show ?thesis
    using d1 d2 d3 d4
    by (simp add: env node u_get_metadata_url_def prod_eq_iff)
qed

section \<open>The sources map\<close>

lemma keys_dict_set: "fst ` set (dict_set d k v) = insert k (fst ` set d)"
  by (induction d) (force split: if_splits)+

lemma add_repository_sources:
  assumes "dict_get apt ''sources'' = None \<or> (\<exists>s. dict_get apt ''sources'' = Some (YDict s))"
  shows "dict_get (add_repository n apt repo) ''sources''
         = Some (YDict (dict_set (sources_of apt) (make_clean_repo_name repo) (source_entry n repo)))"
  using assms
  by (auto simp: add_repository_def sources_of_def dict_get_dict_set Let_def)

lemma add_repository_other:
  "k \<noteq> ''sources'' \<Longrightarrow> dict_get (add_repository n apt repo) k = dict_get apt k"
  by (auto simp: add_repository_def dict_get_dict_set Let_def split: option.splits yval.splits)

lemma foldl_add_repository_other:
  "k \<noteq> ''sources'' \<Longrightarrow> dict_get (foldl (add_repository n) apt repos) k = dict_get apt k"
  by (induction repos arbitrary: apt) (simp_all add: add_repository_other)

lemma foldl_add_repository_sources:
  assumes "dict_get apt ''sources'' = None \<or> (\<exists>s. dict_get apt ''sources'' = Some (YDict s))"
  shows "sources_of (foldl (add_repository n) apt repos)
         = foldl (\<lambda>s repo. dict_set s (make_clean_repo_name repo) (source_entry n repo))
             (sources_of apt) repos
       \<and> (repos \<noteq> [] \<longrightarrow>
            dict_get (foldl (add_repository n) apt repos) ''sources''
            = Some (YDict (sources_of (foldl (add_repository n) apt repos))))"
  using assms
proof (induction repos arbitrary: apt)
  case Nil
  then show ?case by simp
next
  case (Cons repo repos)
  let ?apt = "add_repository n apt repo"
  have g: "dict_get ?apt ''sources''
      = Some (YDict (dict_set (sources_of apt) (make_clean_repo_name repo) (source_entry n repo)))"
    using Cons.prems by (rule add_repository_sources)
  then have s: "sources_of ?apt
      = dict_set (sources_of apt) (make_clean_repo_name repo) (source_entry n repo)"
    by (simp add: sources_of_def)
  from g have wf: "dict_get ?apt ''sources'' = None \<or> (\<exists>s. dict_get ?apt ''sources'' = Some (YDict s))"
    by simp
  from Cons.IH [OF wf] g s show ?case by (cases repos) simp_all
qed

lemma foldl_dict_set_keys:
  "fst ` set (foldl (\<lambda>s r. dict_set s (f r) (g r)) s0 rs) = fst ` set s0 \<union> f ` set rs"
  by (induction rs arbitrary: s0) (auto simp: keys_dict_set)

lemma foldl_dict_set_other:
  "(\<And>r. r \<in> set rs \<Longrightarrow> f r \<noteq> k) \<Longrightarrow>
   dict_get (foldl (\<lambda>s r. dict_set s (f r) (g r)) s0 rs) k = dict_get s0 k"
  by (induction rs arbitrary: s0) (auto simp add: dict_get_dict_set)

lemma default_apt_sources:
  "dict_get (default_apt e n p) ''sources''
   = (if repo_key (get_default_archive e (fst (split_arch n))) \<noteq> [] then
        Some (YDict [(''archive_key'',
                YDict [(''key'', YStr (repo_key (get_default_archive e (fst (split_arch n)))))])])
      else None)"
  by (simp add: default_apt_def Let_def dict_get_dict_set split: option.splits)
     (simp add: dict_get_def)

lemma default_apt_preserve:
  "dict_get (default_apt e n p) ''preserve_sources_list'' = Some (YBool p)"
  by (simp add: default_apt_def Let_def dict_get_dict_set split: option.splits)
     (simp add: dict_get_def)

lemma apt_config_sources:
  "sources_of (apt_config e n p)
   = foldl (\<lambda>s repo. dict_set s (make_clean_repo_name repo) (source_entry n repo))
       (if repo_key (get_default_archive e (fst (split_arch n))) \<noteq> [] then
          [(''archive_key'',
            YDict [(''key'', YStr (repo_key (get_default_archive e (fst (split_arch n)))))])]
        else [])
       (get_additional_repositories e (fst (split_arch n)))"
proof -
  have wf: "dict_get (default_apt e n p) ''sources'' = None
      \<or> (\<exists>s. dict_get (default_apt e n p) ''sources'' = Some (YDict s))"
    by (simp add: default_apt_sources)
  have "sources_of (default_apt e n p)
      = (if repo_key (get_default_archive e (fst (split_arch n))) \<noteq> [] then
           [(''archive_key'',
             YDict [(''key'', YStr (repo_key (get_default_archive e (fst (split_arch n)))))])]
         else [])"
    by (simp add: sources_of_def default_apt_sources)
  with foldl_add_repository_sources [OF wf] show ?thesis by (simp add: apt_config_def)
qed

lemma apt_config_sources_present:
  "repo_key (get_default_archive e (fst (split_arch n))) \<noteq> []
     \<or> get_additional_repositories e (fst (split_arch n)) \<noteq> [] \<Longrightarrow>
   dict_get (apt_config e n p) ''sources'' = Some (YDict (sources_of (apt_config e n p)))"
proof (cases "get_additional_repositories e (fst (split_arch n)) = []")
  case True
  assume "repo_key (get_default_archive e (fst (split_arch n))) \<noteq> []
     \<or> get_additional_repositories e (fst (split_arch n)) \<noteq> []"
  with True show ?thesis by (simp add: apt_config_def sources_of_def default_apt_sources)
next
  case False
  have wf: "dict_get (default_apt e n p) ''sources'' = None
      \<or> (\<exists>s. dict_get (default_apt e n p) ''sources'' = Some (YDict s))"
    by (simp add: default_apt_sources)
  from foldl_add_repository_sources [OF wf] False show ?thesis by (simp add: apt_config_def)
qed

text \<open>
  Claim C10. The keys of \<open>archives['apt']['sources']\<close> are \<open>archive_key\<close> (when the default
  archive has a signing key) and the sanitized names of the additional repositories. Every
  sanitized name ends with an underscore and the decimal identifier of its repository, so it
  is never \<open>archive_key\<close>; hence, however many repositories are added, the entry
  \<open>archive_key\<close> of a default archive with a key is still there with that key.
\<close>

theorem additional_repositories_keep_archive_key:
  "(let archive = get_default_archive e (fst (split_arch n));
        repositories = get_additional_repositories e (fst (split_arch n));
        sources = sources_of (apt_config e n preserve_sources)
    in (repo_key archive \<noteq> [] \<or> repositories \<noteq> [] \<longrightarrow>
            lookup_path (YDict (get_archive_config e n preserve_sources)) [''apt'', ''sources'']
              = Some (YDict sources))
       \<and> fst ` set sources
           = (if repo_key archive \<noteq> [] then {''archive_key''} else {})
             \<union> make_clean_repo_name ` set repositories
       \<and> make_clean_repo_name repo
           = lower (replace (CHR '' '') ''_''
               (dropWhile isspace_char (translate_delete special_characters (repo_name repo))))
             @ ''_'' @ str_int (repo_id repo)
       \<and> make_clean_repo_name repo \<noteq> ''archive_key''
       \<and> (repo_key archive \<noteq> [] \<longrightarrow>
            lookup_path (YDict (get_archive_config e n preserve_sources))
                [''apt'', ''sources'', ''archive_key'']
              = Some (YDict [(''key'', YStr (repo_key archive))])))"
proof -
  let ?archive = "get_default_archive e (fst (split_arch n))"
  let ?repos = "get_additional_repositories e (fst (split_arch n))"
  let ?sources = "sources_of (apt_config e n preserve_sources)"
  have top: "dict_get (get_archive_config e n preserve_sources) ''apt''
      = Some (YDict (apt_config e n preserve_sources))"
    by (simp add: get_archive_config_def dict_get_def)
  have present: "repo_key ?archive \<noteq> [] \<or> ?repos \<noteq> [] \<longrightarrow>
      lookup_path (YDict (get_archive_config e n preserve_sources)) [''apt'', ''sources'']
        = Some (YDict ?sources)"
    using apt_config_sources_present [of e n preserve_sources] by (simp add: top)
  have keys: "fst ` set ?sources
      = (if repo_key ?archive \<noteq> [] then {''archive_key''} else {})
        \<union> make_clean_repo_name ` set ?repos"
    by (simp add: apt_config_sources foldl_dict_set_keys)
  have kept: "repo_key ?archive \<noteq> [] \<longrightarrow>
      lookup_path (YDict (get_archive_config e n preserve_sources))
          [''apt'', ''sources'', ''archive_key'']
        = Some (YDict [(''key'', YStr (repo_key ?archive))])"
  proof
    assume k: "repo_key ?archive \<noteq> []"
    have "dict_get ?sources ''archive_key''
        = dict_get [(''archive_key'', YDict [(''key'', YStr (repo_key ?archive))])] ''archive_key''"
      unfolding apt_config_sources using k
      by (simp add: foldl_dict_set_other make_clean_repo_name_not_archive_key)
    then have "dict_get ?sources ''archive_key'' = Some (YDict [(''key'', YStr (repo_key ?archive))])"
      by (simp add: dict_get_def)
    with k apt_config_sources_present [of e n preserve_sources] show
      "lookup_path (YDict (get_archive_config e n preserve_sources))
          [''apt'', ''sources'', ''archive_key'']
        = Some (YDict [(''key'', YStr (repo_key ?archive))])"
      by (simp add: top)
  qed
  show ?thesis
    unfolding Let_def
    using present keys kept make_clean_repo_name_shape [of repo]
      make_clean_repo_name_not_archive_key [of repo]
    by simp
qed

lemma sample_repo_name: "make_clean_repo_name sample_repo = ''my_repo_7''"
  by code_simp

theorem additional_repositories_keep_archive_key_witness:
  "repo_key (get_default_archive sample_env (fst (split_arch sample_node))) \<noteq> []
   \<and> get_additional_repositories sample_env (fst (split_arch sample_node)) = [sample_repo]
   \<and> fst ` set (sources_of (apt_config sample_env sample_node False))
       = {''archive_key'', ''my_repo_7''}
   \<and> lookup_path (YDict (get_archive_config sample_env sample_node False))
         [''apt'', ''sources'', ''archive_key'']
       = Some (YDict [(''key'', YStr ''AK'')])"
proof -
  have env: "get_default_archive sample_env = (\<lambda>arch. sample_archive)"
    "get_additional_repositories sample_env = (\<lambda>arch. [sample_repo])"
    by (simp_all add: sample_env_def)
  have key: "repo_key sample_archive = ''AK''" by (simp add: sample_archive_def)
  show ?thesis
    using additional_repositories_keep_archive_key
      [where e = sample_env and n = sample_node and preserve_sources = False
         and repo = sample_repo]
    by (simp add: Let_def env key sample_repo_name insert_commute)
qed

section \<open>Reporting and power state\<close>

lemma all_keys_dict_set:
  "set (all_keys (YDict (dict_set d k v)))
   \<subseteq> insert k (set (all_keys v) \<union> set (all_keys (YDict d)))"
proof (induction d)
  case Nil
  then show ?case by simp
next
  case (Cons a d)
  obtain k' v' where a: "a = (k', v')" by (cases a)
  show ?case
  proof (cases "k' = k")
    case True
    then show ?thesis by (auto simp: a)
  next
    case False
    have "set (all_keys (YDict (dict_set (a # d) k v)))
        = insert k' (set (all_keys v') \<union> set (all_keys (YDict (dict_set d k v))))"
      using False by (simp add: a)
    moreover have "set (all_keys (YDict (a # d)))
        = insert k' (set (all_keys v') \<union> set (all_keys (YDict d)))"
      by (simp add: a)
    ultimately show ?thesis using Cons.IH by blast
  qed
qed

lemma all_keys_dict_get:
  "dict_get d k = Some v \<Longrightarrow> set (all_keys v) \<subseteq> set (all_keys (YDict d))"
  by (induction d) (auto simp: dict_get_def split: if_splits)

lemma all_keys_source_entry: "set (all_keys (source_entry n repo)) \<subseteq> {''key'', ''source''}"
  by (simp add: source_entry_def)

lemma all_keys_add_repository:
  "set (all_keys (YDict (add_repository n apt repo)))
   \<subseteq> set (all_keys (YDict apt))
     \<union> {''sources'', make_clean_repo_name repo, ''key'', ''source''}"
proof -
  define apt' where
    "apt' = (if dict_get apt ''sources'' = None then dict_set apt ''sources'' (YDict []) else apt)"
  have a: "set (all_keys (YDict apt')) \<subseteq> insert ''sources'' (set (all_keys (YDict apt)))"
    using all_keys_dict_set [of apt "''sources''" "YDict []"] by (auto simp: apt'_def)
  have r: "add_repository n apt repo
      = (case dict_get apt' ''sources'' of
           Some (YDict sources) \<Rightarrow>
             dict_set apt' ''sources''
               (YDict (dict_set sources (make_clean_repo_name repo) (source_entry n repo)))
         | _ \<Rightarrow> apt')"
    by (simp only: add_repository_def apt'_def Let_def)
  show ?thesis
  proof (cases "\<exists>s. dict_get apt' ''sources'' = Some (YDict s)")
    case True
    then obtain s where s: "dict_get apt' ''sources'' = Some (YDict s)" by blast
    have 1: "set (all_keys (YDict s)) \<subseteq> set (all_keys (YDict apt'))"
      using s by (rule all_keys_dict_get)
    have 2: "set (all_keys (YDict (dict_set s (make_clean_repo_name repo) (source_entry n repo))))
        \<subseteq> insert (make_clean_repo_name repo)
            (set (all_keys (source_entry n repo)) \<union> set (all_keys (YDict s)))"
      by (rule all_keys_dict_set)
    have 3: "set (all_keys (YDict (add_repository n apt repo)))
        \<subseteq> insert ''sources''
            (set (all_keys (YDict (dict_set s (make_clean_repo_name repo) (source_entry n repo))))
             \<union> set (all_keys (YDict apt')))"
      unfolding r s by (simp only: option.case yval.case) (rule all_keys_dict_set)
    from a 1 2 3 all_keys_source_entry [of n repo] show ?thesis by blast
  next
    case False
    then have "add_repository n apt repo = apt'"
      unfolding r by (auto split: option.splits yval.splits)
    with a show ?thesis by auto
  qed
qed

lemma all_keys_foldl_add_repository:
  "set (all_keys (YDict (foldl (add_repository n) apt repos)))
   \<subseteq> set (all_keys (YDict apt)) \<union> {''sources'', ''key'', ''source''}
     \<union> make_clean_repo_name ` set repos"
proof (induction repos arbitrary: apt)
  case Nil
  then show ?case by auto
next
  case (Cons repo repos)
  from Cons.IH [of "add_repository n apt repo"] all_keys_add_repository [of n apt repo]
  show ?case by (simp only: foldl_Cons list.set image_insert) blast
qed

lemma all_keys_default_apt:
  "set (all_keys (YDict (default_apt e n p)))
   \<subseteq> {''preserve_sources_list'', ''primary'', ''security'', ''arches'', ''uri'',
       ''disable_suites'', ''proxy'', ''sources'', ''archive_key'', ''key''}"
  by (auto simp: default_apt_def Let_def comp_def split: option.splits if_splits)

lemma make_clean_repo_name_not_power_state: "make_clean_repo_name repo \<noteq> ''power_state''"
proof
  assume eq: "make_clean_repo_name repo = ''power_state''"
  have "last (make_clean_repo_name repo) = last (str_int (repo_id repo))"
    using str_int_nonempty by (simp add: make_clean_repo_name_shape)
  with eq have "last (str_int (repo_id repo)) = CHR ''e''" by simp
  with last_str_int_digit [of "repo_id repo"] show False by simp
qed

lemma apt_config_no_power_state: "''power_state'' \<notin> set (all_keys (YDict (apt_config e n p)))"
proof
  define repos where "repos = get_additional_repositories e (fst (split_arch n))"
  define k where "k = ''power_state''"
  assume "''power_state'' \<in> set (all_keys (YDict (apt_config e n p)))"
  then have "k \<in> set (all_keys (YDict (foldl (add_repository n) (default_apt e n p) repos)))"
    by (simp only: apt_config_def repos_def k_def)
  with all_keys_foldl_add_repository [of n "default_apt e n p" repos]
  have "k \<in> set (all_keys (YDict (default_apt e n p))) \<union> {''sources'', ''key'', ''source''}
      \<union> make_clean_repo_name ` set repos"
    by (rule subsetD)
  then have "k \<in> set (all_keys (YDict (default_apt e n p)))
      \<or> k \<in> {''sources'', ''key'', ''source''}
      \<or> k \<in> make_clean_repo_name ` set repos"
    by (simp only: Un_iff disj_assoc)
  then show False
  proof (elim disjE)
    assume "k \<in> set (all_keys (YDict (default_apt e n p)))"
    with all_keys_default_apt [of e n p] have "k
      \<in> {''preserve_sources_list'', ''primary'', ''security'', ''arches'', ''uri'',
       ''disable_suites'', ''proxy'', ''sources'', ''archive_key'', ''key''}"
      by (rule subsetD)
    then show False by (simp add: k_def)
  next
    assume "k \<in> {''sources'', ''key'', ''source''}"
    then show False by (simp add: k_def)
  next
    assume "k \<in> make_clean_repo_name ` set repos"
    then obtain repo where "k = make_clean_repo_name repo" by (rule imageE)
    with make_clean_repo_name_not_power_state [of repo] show False by (simp add: k_def)
  qed
qed

lemma all_keys_with_apt_proxy:
  "set (all_keys (YDict (with_apt_proxy e n d))) \<subseteq> insert ''apt_proxy'' (set (all_keys (YDict d)))"
proof (cases "\<exists>p. get_apt_proxy_for_node e n = Some p \<and> p \<noteq> []")
  case True
  then obtain p where "get_apt_proxy_for_node e n = Some p" "p \<noteq> []" by blast
  then have "with_apt_proxy e n d = dict_set d ''apt_proxy'' (YStr p)"
    by (simp add: with_apt_proxy_def)
  with all_keys_dict_set [of d "''apt_proxy''" "YStr p"] show ?thesis by simp
next
  case False
  then have "with_apt_proxy e n d = d" by (auto simp: with_apt_proxy_def split: option.splits)
  then show ?thesis by auto
qed

lemma cloud_config_no_power_state:
  "''power_state'' \<notin> set (all_keys (YDict (cloud_config e n tok metadata_url base_url False
                                               poweroff_timeout poweroff_condition)))"
proof -
  define base where "base = dict_set [
      (''datasource'', YDict [(''MAAS'', YDict [
         (''metadata_url'', YStr metadata_url),
         (''consumer_key'', YStr (consumer_key tok)),
         (''token_key'', YStr (token_key tok)),
         (''token_secret'', YStr (token_secret tok))])]),
      (''reporting'', reporting e n tok base_url),
      (''rsyslog'', YDict [(''remotes'', YDict [
         (''maas'', YStr (get_rsyslog_host_port e n))])])]
      ''system_info'' (YDict [(''package_mirrors'', package_mirrors e)])"
  have c: "cloud_config e n tok metadata_url base_url False poweroff_timeout poweroff_condition
      = dict_set (with_apt_proxy e n base) ''apt'' (YDict (apt_config e n False))"
    by (simp add: cloud_config_def base_def get_system_info_def get_archive_config_def
        dict_update_single)
  have b: "''power_state'' \<notin> set (all_keys (YDict base))"
    by (simp add: base_def reporting_def package_mirrors_def)
  with all_keys_with_apt_proxy [of e n base]
  have w: "''power_state'' \<notin> set (all_keys (YDict (with_apt_proxy e n base)))" by auto
  from all_keys_dict_set [of "with_apt_proxy e n base" "''apt''" "YDict (apt_config e n False)"]
    w apt_config_no_power_state [of e n False]
  show ?thesis unfolding c by auto
qed

text \<open>
  Claim C4. The commissioning document is the dump of a configuration whose
  \<open>reporting\<close> block is a webhook with the three credential fields \<open>consumer_key\<close>,
  \<open>token_key\<close> and \<open>token_secret\<close> of the machine's token. The document composed for
  \<open>CURTIN\<close> when the provider raises \<open>NotImplementedError\<close> is the dump of a configuration
  that has the key \<open>power_state\<close> at no depth.
\<close>

theorem commissioning_reporting_curtin_no_power_state:
  "(let tok = get_token_for_node e n;
        base_url = rack_url (boot_rack_controller n)
    in compose_preseed e COMMISSIONING n
         = ([], Inr (''#cloud-config'' @ [newline]
                     @ safe_dump e (YDict (commissioning_cloud_config e n tok base_url))))
       \<and> lookup_path (YDict (commissioning_cloud_config e n tok base_url))
             [''reporting'', ''maas'']
           = Some (YDict [
               (''type'', YStr ''webhook''),
               (''endpoint'', YStr (absolute_reverse e ''metadata-status'' [system_id n] base_url)),
               (''consumer_key'', YStr (consumer_key tok)),
               (''token_key'', YStr (token_key tok)),
               (''token_secret'', YStr (token_secret tok))])
       \<and> (get_preseed_data e CURTIN n tok (absolute_reverse e ''curtin-metadata'' [] base_url)
            = Raised NotImplementedError \<longrightarrow>
            snd (compose_preseed e CURTIN n)
              = Inr (''#cloud-config'' @ [newline]
                     @ safe_dump e (YDict (curtin_cloud_config e n tok base_url)))
            \<and> ''power_state'' \<notin> set (all_keys (YDict (curtin_cloud_config e n tok base_url)))))"
proof -
  let ?tok = "get_token_for_node e n"
  let ?base = "rack_url (boot_rack_controller n)"
  have 1: "compose_preseed e COMMISSIONING n
         = ([], Inr (''#cloud-config'' @ [newline]
                     @ safe_dump e (YDict (commissioning_cloud_config e n ?tok ?base))))"
    by (simp add: compose_preseed_def Let_def compose_commissioning_preseed_def
        u_compose_cloud_init_preseed_def commissioning_cloud_config_def)
  have 2: "lookup_path (YDict (commissioning_cloud_config e n ?tok ?base)) [''reporting'', ''maas'']
           = Some (YDict [
               (''type'', YStr ''webhook''),
               (''endpoint'', YStr (absolute_reverse e ''metadata-status'' [system_id n] ?base)),
               (''consumer_key'', YStr (consumer_key ?tok)),
               (''token_key'', YStr (token_key ?tok)),
               (''token_secret'', YStr (token_secret ?tok))])"
    by (simp add: commissioning_cloud_config_def dict_get_cloud_config reporting_def)
       (simp add: dict_get_def)
  have 3: "get_preseed_data e CURTIN n ?tok (absolute_reverse e ''curtin-metadata'' [] ?base)
            = Raised NotImplementedError \<Longrightarrow>
            snd (compose_preseed e CURTIN n)
              = Inr (''#cloud-config'' @ [newline]
                     @ safe_dump e (YDict (curtin_cloud_config e n ?tok ?base)))"
    by (simp add: compose_preseed_def Let_def compose_curtin_preseed_def
        u_compose_cloud_init_preseed_def curtin_cloud_config_def u_get_metadata_url_def)
  have 4: "''power_state'' \<notin> set (all_keys (YDict (curtin_cloud_config e n ?tok ?base)))"
    unfolding curtin_cloud_config_def by (rule cloud_config_no_power_state)
  show ?thesis unfolding Let_def using 1 2 3 4 by blast
qed

theorem commissioning_reporting_curtin_no_power_state_witness:
  "get_preseed_data sample_env CURTIN sample_node sample_token
     ''http://rack.example:5240/MAAS/curtin-metadata'' = Raised NotImplementedError
   \<and> lookup_path
        (YDict (commissioning_cloud_config sample_env sample_node sample_token
                  ''http://rack.example:5240/MAAS''))
        [''reporting'', ''maas'']
       = Some (YDict [
           (''type'', YStr ''webhook''),
           (''endpoint'', YStr ''http://rack.example:5240/MAAS/metadata-status''),
           (''consumer_key'', YStr ''ck''),
           (''token_key'', YStr ''tk''),
           (''token_secret'', YStr ''ts'')])
   \<and> snd (compose_preseed sample_env CURTIN sample_node)
       = Inr (''#cloud-config'' @ [newline]
              @ safe_dump sample_env
                  (YDict (curtin_cloud_config sample_env sample_node sample_token
                            ''http://rack.example:5240/MAAS'')))
   \<and> ''power_state''
       \<notin> set (all_keys (YDict (curtin_cloud_config sample_env sample_node sample_token
                                  ''http://rack.example:5240/MAAS'')))"
proof -
  have env: "get_token_for_node sample_env = (\<lambda>n. sample_token)"
    "get_preseed_data sample_env = (\<lambda>t n tok u. Raised NotImplementedError)"
    "absolute_reverse sample_env = (\<lambda>name args base_url. base_url @ ''/'' @ name)"
    by (simp_all add: sample_env_def)
  have node: "rack_url (boot_rack_controller sample_node) = ''http://rack.example:5240/MAAS''"
    by (simp add: sample_node_def sample_rack_def)
  have tok: "consumer_key sample_token = ''ck''" "token_key sample_token = ''tk''"
    "token_secret sample_token = ''ts''"
    by (simp_all add: sample_token_def)
  show ?thesis
    using commissioning_reporting_curtin_no_power_state [where e = sample_env and n = sample_node]
    by (simp add: Let_def env node tok)
qed

section \<open>What sanitization removes\<close>

lemma char_eq_code: "(c = d) = ((of_char c :: nat) = of_char d)"
  by simp

lemma special_codes:
  "c \<in> set special_characters
   \<longleftrightarrow> (of_char c :: nat) \<in> {39, 33, 64, 35, 36, 91, 93, 123, 125}"
  by (simp add: special_characters_def quote_def char_eq_code [of c])

lemma space_code: "(c = CHR '' '') = ((of_char c :: nat) = 32)"
  by (simp add: char_eq_code [of c])

lemma of_char_lower_char:
  "(of_char (lower_char c) :: nat)
   = (if (65 \<le> (of_char c :: nat) \<and> (of_char c :: nat) \<le> 90)
         \<or> (192 \<le> (of_char c :: nat) \<and> (of_char c :: nat) \<le> 222 \<and> (of_char c :: nat) \<noteq> 215)
      then of_char c + 32 else of_char c)"
  by (simp add: lower_char_def Let_def)

lemma lower_char_idem: "lower_char (lower_char c) = lower_char c"
  by (simp add: char_eq_code [of "lower_char (lower_char c)"] of_char_lower_char)

lemma lower_char_space: "c \<noteq> CHR '' '' \<Longrightarrow> lower_char c \<noteq> CHR '' ''"
  by (simp add: space_code of_char_lower_char)

lemma lower_char_special:
  "c \<notin> set special_characters \<Longrightarrow> lower_char c \<notin> set special_characters"
  by (simp add: special_codes of_char_lower_char)

lemma lower_char_isspace: "\<not> isspace_char c \<Longrightarrow> \<not> isspace_char (lower_char c)"
  by (simp add: isspace_char_def of_char_lower_char Let_def)

lemma sanitized_display_name_fixed:
  assumes "\<And>c. c \<in> set u \<Longrightarrow> c \<notin> set special_characters \<and> c \<noteq> CHR '' '' \<and> lower_char c = c"
    and "u = [] \<or> \<not> isspace_char (hd u)"
  shows "sanitized_display_name u = u"
proof -
  have 1: "translate_delete special_characters u = u"
    using assms(1) by (simp add: translate_delete_def)
  have 2: "dropWhile isspace_char u = u"
    using assms(2) by (cases u) simp_all
  have "CHR '' '' \<notin> set u" using assms(1) by blast
  then have 3: "replace (CHR '' '') ''_'' u = u" by (rule replace_absent)
  have 4: "lower u = u" using assms(1) by (intro lower_fixed) blast
  show ?thesis by (simp only: sanitized_display_name_def 1 2 3 4)
qed

lemma sanitized_display_name_chars:
  assumes "c \<in> set (sanitized_display_name s)"
  shows "c \<notin> set special_characters \<and> c \<noteq> CHR '' '' \<and> lower_char c = c"
proof -
  define w where "w = dropWhile isspace_char (translate_delete special_characters s)"
  from assms obtain c' where c: "c = lower_char c'"
    and c': "c' \<in> set (replace (CHR '' '') ''_'' w)"
    by (auto simp: sanitized_display_name_def lower_def w_def)
  from c' have "c' = CHR ''_'' \<or> (c' \<in> set w \<and> c' \<noteq> CHR '' '')"
    by (auto simp: replace_def split: if_splits)
  moreover have "c' \<in> set w \<Longrightarrow> c' \<notin> set special_characters"
    unfolding w_def translate_delete_def by (auto dest: set_dropWhileD)
  moreover have "CHR ''_'' \<notin> set special_characters"
    by (simp add: special_codes)
  ultimately have "c' \<notin> set special_characters \<and> c' \<noteq> CHR '' ''" by auto
  then show ?thesis
    by (simp add: c lower_char_special lower_char_space lower_char_idem)
qed

lemma sanitized_display_name_hd:
  "sanitized_display_name s = [] \<or> \<not> isspace_char (hd (sanitized_display_name s))"
proof -
  define w where "w = dropWhile isspace_char (translate_delete special_characters s)"
  show ?thesis
  proof (cases w)
    case Nil
    then have "sanitized_display_name s = []"
      by (simp add: sanitized_display_name_def w_def [symmetric] replace_def lower_def)
    then show ?thesis by simp
  next
    case (Cons a w')
    have "\<not> isspace_char (hd w)"
      unfolding w_def by (rule hd_dropWhile) (simp add: w_def [symmetric] Cons)
    then have a: "\<not> isspace_char a" by (simp add: Cons)
    then have "a \<noteq> CHR '' ''" using space_is_whitespace by auto
    then have "hd (sanitized_display_name s) = lower_char a"
      by (simp add: sanitized_display_name_def w_def [symmetric] Cons replace_def lower_def)
    with a show ?thesis by (simp add: lower_char_isspace)
  qed
qed

lemma sanitized_display_name_idem:
  "sanitized_display_name (sanitized_display_name s) = sanitized_display_name s"
  using sanitized_display_name_chars [of _ s] sanitized_display_name_hd [of s]
  by (rule sanitized_display_name_fixed)

text \<open>
  Claim C8, as amended. The sanitized name is the sanitized display name, an underscore and
  the decimal identifier. From the display name the function removes the nine special
  characters \<open>' ! @ # $ [ ] { }\<close> and, besides them, the whitespace that is then left at the
  front (the effect of \<open>strip\<close>); nothing else is removed: every remaining space becomes an
  underscore and every upper-case letter its lower-case letter. Sanitization is idempotent on
  the display name: a repository whose display name is already a sanitized display name gets
  the same sanitized name, and a display name without special characters, spaces, upper-case
  letters and leading whitespace is kept as it is.
\<close>

theorem make_clean_repo_name_removes:
  "make_clean_repo_name repo
     = sanitized_display_name (repo_name repo) @ ''_'' @ str_int (repo_id repo)
   \<and> sanitized_display_name (repo_name repo)
     = lower (replace (CHR '' '') ''_''
         (dropWhile isspace_char
            (filter (\<lambda>c. c \<notin> set (quote # ''!@#$[]{}'')) (repo_name repo))))
   \<and> make_clean_repo_name (repo\<lparr>repo_name := sanitized_display_name (repo_name repo)\<rparr>)
     = make_clean_repo_name repo
   \<and> (list_all (\<lambda>c. c \<notin> set (quote # ''!@#$[]{}'') \<and> c \<noteq> CHR '' '' \<and> lower_char c = c)
         (repo_name repo)
      \<and> (repo_name repo = [] \<or> \<not> isspace_char (hd (repo_name repo))) \<longrightarrow>
      make_clean_repo_name repo = repo_name repo @ ''_'' @ str_int (repo_id repo))"
proof (intro conjI impI)
  show shape: "make_clean_repo_name repo
     = sanitized_display_name (repo_name repo) @ ''_'' @ str_int (repo_id repo)"
    by (simp only: make_clean_repo_name_shape sanitized_display_name_def)
  show "sanitized_display_name (repo_name repo)
     = lower (replace (CHR '' '') ''_''
         (dropWhile isspace_char
            (filter (\<lambda>c. c \<notin> set (quote # ''!@#$[]{}'')) (repo_name repo))))"
    by (simp only: sanitized_display_name_def translate_delete_def special_characters_def)
  show "make_clean_repo_name (repo\<lparr>repo_name := sanitized_display_name (repo_name repo)\<rparr>)
     = make_clean_repo_name repo"
    by (simp add: make_clean_repo_name_shape sanitized_display_name_def [symmetric]
        sanitized_display_name_idem)
  assume clean: "list_all (\<lambda>c. c \<notin> set (quote # ''!@#$[]{}'') \<and> c \<noteq> CHR '' ''
                            \<and> lower_char c = c) (repo_name repo)
      \<and> (repo_name repo = [] \<or> \<not> isspace_char (hd (repo_name repo)))"
  have "sanitized_display_name (repo_name repo) = repo_name repo"
  proof (rule sanitized_display_name_fixed)
    fix c assume "c \<in> set (repo_name repo)"
    with clean show "c \<notin> set special_characters \<and> c \<noteq> CHR '' '' \<and> lower_char c = c"
      by (simp only: list_all_iff special_characters_def) blast
  next
    from clean show "repo_name repo = [] \<or> \<not> isspace_char (hd (repo_name repo))" by blast
  qed
  with shape show "make_clean_repo_name repo = repo_name repo @ ''_'' @ str_int (repo_id repo)"
    by simp
qed

theorem make_clean_repo_name_removes_witness:
  "list_all (\<lambda>c. c \<notin> set (quote # ''!@#$[]{}'') \<and> c \<noteq> CHR '' '' \<and> lower_char c = c)
      (repo_name sample_archive)
   \<and> (repo_name sample_archive = [] \<or> \<not> isspace_char (hd (repo_name sample_archive)))
   \<and> make_clean_repo_name sample_archive = ''main_archive_1''
   \<and> make_clean_repo_name (sample_repo\<lparr>repo_name := [CHR 0xC9, CHR ''c'', CHR ''O'']\<rparr>)
       = [CHR 0xE9, CHR ''c'', CHR ''o''] @ ''_7''
   \<and> make_clean_repo_name (sample_repo\<lparr>repo_name := [CHR 0xA0, CHR ''a'']\<rparr>) = ''a_7''"
proof -
  have c: "list_all (\<lambda>c. c \<notin> set (quote # ''!@#$[]{}'') \<and> c \<noteq> CHR '' '' \<and> lower_char c = c)
      (repo_name sample_archive)"
    "repo_name sample_archive = [] \<or> \<not> isspace_char (hd (repo_name sample_archive))"
    by code_simp+
  have s: "str_int (repo_id sample_archive) = ''1''"
    "repo_name sample_archive = ''main_archive''"
    "str_int (repo_id sample_repo) = ''7''"
    "sanitized_display_name [CHR 0xC9, CHR ''c'', CHR ''O''] = [CHR 0xE9, CHR ''c'', CHR ''o'']"
    "sanitized_display_name [CHR 0xA0, CHR ''a''] = ''a''"
    by code_simp+
  from make_clean_repo_name_removes [of sample_archive] c
  have "make_clean_repo_name sample_archive
      = repo_name sample_archive @ ''_'' @ str_int (repo_id sample_archive)"
    by blast
  then have 1: "make_clean_repo_name sample_archive = ''main_archive_1''"
    by (simp add: s)
  from make_clean_repo_name_removes
    [of "sample_repo\<lparr>repo_name := [CHR 0xC9, CHR ''c'', CHR ''O'']\<rparr>"]
  have 2: "make_clean_repo_name (sample_repo\<lparr>repo_name := [CHR 0xC9, CHR ''c'', CHR ''O'']\<rparr>)
       = [CHR 0xE9, CHR ''c'', CHR ''o''] @ ''_7''"
    by (simp add: s)
  from make_clean_repo_name_removes [of "sample_repo\<lparr>repo_name := [CHR 0xA0, CHR ''a'']\<rparr>"]
  have 3: "make_clean_repo_name (sample_repo\<lparr>repo_name := [CHR 0xA0, CHR ''a'']\<rparr>) = ''a_7''"
    by (simp add: s)
  from c 1 2 3 show ?thesis by (intro conjI)
qed

theorem make_clean_repo_name_strips_counterexample:
  "CHR '' '' \<notin> set special_characters
   \<and> make_clean_repo_name (sample_repo\<lparr>repo_name := '' a''\<rparr>) = ''a_7''
   \<and> make_clean_repo_name (sample_repo\<lparr>repo_name := '' a''\<rparr>)
       \<noteq> lower (replace (CHR '' '') ''_'' (translate_delete special_characters '' a''))
         @ ''_'' @ str_int 7"
  by code_simp

section \<open>The debconf fallback\<close>

lemma get_apt_proxy_nonempty: "get_apt_proxy_for_node e n = Some p \<Longrightarrow> p \<noteq> []"
  by (auto simp: get_apt_proxy_for_node_def split: if_splits option.splits)

lemma apt_config_preserve:
  "dict_get (apt_config e n p) ''preserve_sources_list'' = Some (YBool p)"
  by (simp add: apt_config_def foldl_add_repository_other default_apt_preserve)

lemma dict_get_cloud_init_config:
  "dict_get (cloud_init_config e n tok base_url) k =
     (if k = ''apt'' then Some (YDict (apt_config e n False))
      else if k = ''apt_proxy'' then
        (case get_apt_proxy_for_node e n of
           Some p \<Rightarrow> if p \<noteq> [] then Some (YStr p) else None
         | None \<Rightarrow> None)
      else if k = ''system_info'' then Some (YDict [(''package_mirrors'', package_mirrors e)])
      else if k = ''reporting'' then Some (reporting e n tok base_url)
      else if k = ''manual_cache_clean'' then Some (YBool True)
      else if k = ''apt_preserve_sources_list'' then Some (YBool True)
      else if k = ''manage_etc_hosts'' then Some (YBool False)
      else None)"
  by (simp add: cloud_init_config_def get_system_info_def get_archive_config_def
      dict_update_single dict_get_dict_set dict_get_with_apt_proxy Let_def split: option.splits)
   (simp add: dict_get_def)

text \<open>
  Claim C2, as amended. A request that is neither \<open>COMMISSIONING\<close> nor \<open>CURTIN\<close> and whose
  provider raises \<open>NotImplementedError\<close> gets four debconf lines, in this order: the
  datasources line with the value \<open>MAAS\<close>, the metadata URL line, the line of the URL-encoded
  credentials and the local-cloud-config line with the escaped dump of a configuration. That
  configuration has the system info, the proxy when there is one, the reporting webhook and
  the repository block \<open>apt\<close>; the flag \<open>preserve_sources_list\<close> of the repository block is
  false (the block is built with \<open>preserve_sources=False\<close>), while the separate top-level key
  \<open>apt_preserve_sources_list\<close> is true.
\<close>

theorem debconf_fallback_document:
  "(let tok = get_token_for_node e n;
        base_url = rack_url (boot_rack_controller n);
        config = cloud_init_config e n tok base_url
    in (preseed_type \<noteq> COMMISSIONING \<and> preseed_type \<noteq> CURTIN
        \<and> get_preseed_data e preseed_type n tok (absolute_reverse e ''metadata'' [] base_url)
            = Raised NotImplementedError \<longrightarrow>
        snd (compose_preseed e preseed_type n)
          = Inr (''cloud-init   cloud-init/datasources  multiselect MAAS'' @ [newline]
                 @ ''cloud-init   cloud-init/maas-metadata-url  string ''
                   @ absolute_reverse e ''metadata'' [] base_url @ [newline]
                 @ ''cloud-init   cloud-init/maas-metadata-credentials  string ''
                   @ urlencode e [(''oauth_consumer_key'', consumer_key tok),
                                  (''oauth_token_key'', token_key tok),
                                  (''oauth_token_secret'', token_secret tok)] @ [newline]
                 @ ''cloud-init   cloud-init/local-cloud-config  string ''
                   @ debconf_escape (safe_dump e (YDict config))))
       \<and> dict_get config ''system_info'' = Some (YDict [(''package_mirrors'', package_mirrors e)])
       \<and> dict_get config ''apt_proxy'' = map_option YStr (get_apt_proxy_for_node e n)
       \<and> dict_get config ''reporting''
           = Some (YDict [(''maas'', YDict [
               (''type'', YStr ''webhook''),
               (''endpoint'', YStr (absolute_reverse e ''metadata-status'' [system_id n] base_url)),
               (''consumer_key'', YStr (consumer_key tok)),
               (''token_key'', YStr (token_key tok)),
               (''token_secret'', YStr (token_secret tok))])])
       \<and> dict_get config ''apt'' = Some (YDict (apt_config e n False))
       \<and> lookup_path (YDict config) [''apt'', ''preserve_sources_list''] = Some (YBool False)
       \<and> dict_get config ''apt_preserve_sources_list'' = Some (YBool True))"
proof -
  let ?tok = "get_token_for_node e n"
  let ?base = "rack_url (boot_rack_controller n)"
  let ?config = "cloud_init_config e n ?tok ?base"
  have doc: "preseed_type \<noteq> COMMISSIONING \<and> preseed_type \<noteq> CURTIN
        \<and> get_preseed_data e preseed_type n ?tok (absolute_reverse e ''metadata'' [] ?base)
            = Raised NotImplementedError \<longrightarrow>
        snd (compose_preseed e preseed_type n)
          = Inr (''cloud-init   cloud-init/datasources  multiselect MAAS'' @ [newline]
                 @ ''cloud-init   cloud-init/maas-metadata-url  string ''
                   @ absolute_reverse e ''metadata'' [] ?base @ [newline]
                 @ ''cloud-init   cloud-init/maas-metadata-credentials  string ''
                   @ urlencode e [(''oauth_consumer_key'', consumer_key ?tok),
                                  (''oauth_token_key'', token_key ?tok),
                                  (''oauth_token_secret'', token_secret ?tok)] @ [newline]
                 @ ''cloud-init   cloud-init/local-cloud-config  string ''
                   @ debconf_escape (safe_dump e (YDict ?config)))"
    by (simp add: compose_preseed_def Let_def u_get_metadata_url_def
        compose_cloud_init_preseed_def preseed_line_def)
  have proxy: "dict_get ?config ''apt_proxy'' = map_option YStr (get_apt_proxy_for_node e n)"
    using get_apt_proxy_nonempty [of e n]
    by (cases "get_apt_proxy_for_node e n") (simp_all add: dict_get_cloud_init_config)
  have rest: "dict_get ?config ''system_info''
        = Some (YDict [(''package_mirrors'', package_mirrors e)])"
    "dict_get ?config ''reporting''
           = Some (YDict [(''maas'', YDict [
               (''type'', YStr ''webhook''),
               (''endpoint'', YStr (absolute_reverse e ''metadata-status'' [system_id n] ?base)),
               (''consumer_key'', YStr (consumer_key ?tok)),
               (''token_key'', YStr (token_key ?tok)),
               (''token_secret'', YStr (token_secret ?tok))])])"
    "dict_get ?config ''apt'' = Some (YDict (apt_config e n False))"
    "lookup_path (YDict ?config) [''apt'', ''preserve_sources_list''] = Some (YBool False)"
    "dict_get ?config ''apt_preserve_sources_list'' = Some (YBool True)"
    by (simp_all add: dict_get_cloud_init_config reporting_def apt_config_preserve)
  show ?thesis unfolding Let_def using doc proxy rest by (intro conjI)
qed

theorem debconf_fallback_document_witness:
  "OTHER_TYPE ''preseed_master'' \<noteq> COMMISSIONING \<and> OTHER_TYPE ''preseed_master'' \<noteq> CURTIN
   \<and> get_preseed_data sample_env (OTHER_TYPE ''preseed_master'') sample_node sample_token
        ''http://rack.example:5240/MAAS/metadata'' = Raised NotImplementedError
   \<and> snd (compose_preseed sample_env (OTHER_TYPE ''preseed_master'') sample_node)
       = Inr (''cloud-init   cloud-init/datasources  multiselect MAAS'' @ [newline]
              @ ''cloud-init   cloud-init/maas-metadata-url  string ''
                @ ''http://rack.example:5240/MAAS/metadata'' @ [newline]
              @ ''cloud-init   cloud-init/maas-metadata-credentials  string ''
                @ ''oauth_consumer_key=ck&oauth_token_key=tk&oauth_token_secret=ts'' @ [newline]
              @ ''cloud-init   cloud-init/local-cloud-config  string ''
                @ debconf_escape (safe_dump sample_env
                    (YDict (cloud_init_config sample_env sample_node sample_token
                              ''http://rack.example:5240/MAAS''))))"
proof -
  have env: "get_token_for_node sample_env = (\<lambda>n. sample_token)"
    "get_preseed_data sample_env = (\<lambda>t n tok u. Raised NotImplementedError)"
    "absolute_reverse sample_env = (\<lambda>name args base_url. base_url @ ''/'' @ name)"
    "urlencode sample_env = sample_urlencode"
    by (simp_all add: sample_env_def)
  have node: "rack_url (boot_rack_controller sample_node) = ''http://rack.example:5240/MAAS''"
    by (simp add: sample_node_def sample_rack_def)
  have tok: "consumer_key sample_token = ''ck''" "token_key sample_token = ''tk''"
    "token_secret sample_token = ''ts''"
    by (simp_all add: sample_token_def)
  show ?thesis
    using debconf_fallback_document [where e = sample_env and n = sample_node
        and preseed_type = "OTHER_TYPE ''preseed_master''"]
    by (simp add: Let_def env node tok sample_urlencode_def)
qed

theorem preserve_sources_forced_true_counterexample:
  "snd (compose_preseed sample_env (OTHER_TYPE ''preseed_master'') sample_node)
     = Inr (compose_cloud_init_preseed sample_env sample_node sample_token
              ''http://rack.example:5240/MAAS'')
   \<and> lookup_path (YDict (cloud_init_config sample_env sample_node sample_token
                           ''http://rack.example:5240/MAAS''))
         [''apt'', ''preserve_sources_list'']
       = Some (YBool False)
   \<and> lookup_path (YDict (cloud_init_config sample_env sample_node sample_token
                           ''http://rack.example:5240/MAAS''))
         [''apt'', ''preserve_sources_list'']
       \<noteq> Some (YBool True)"
proof -
  have env: "get_token_for_node sample_env = (\<lambda>n. sample_token)"
    "get_preseed_data sample_env = (\<lambda>t n tok u. Raised NotImplementedError)"
    by (simp_all add: sample_env_def)
  have node: "rack_url (boot_rack_controller sample_node) = ''http://rack.example:5240/MAAS''"
    by (simp add: sample_node_def sample_rack_def)
  show ?thesis
    by (simp add: compose_preseed_def Let_def env node dict_get_cloud_init_config
        apt_config_preserve)
qed

end
